theory Spec2Isabelle
  imports Complex_Main "HOL-Library.Word"
begin

section \<open>Conventions of the embedding\<close>

text \<open>
  The program is \<^verbatim>\<open>soleimani_et_al_2009.cc\<close>. Its \<^verbatim>\<open>double\<close> values are modelled
  by real numbers: arithmetic is exact (no rounding, no overflow), \<^verbatim>\<open>fabs\<close> is the
  absolute value, \<^verbatim>\<open>pow(x, y)\<close> with a \<^verbatim>\<open>double\<close> exponent is \<open>x powr y\<close> (the two
  agree for \<open>x > 0\<close>, and for \<open>x = 0\<close>, \<open>y > 0\<close>), and \<^verbatim>\<open>pow\<close> with the integer
  exponents \<^verbatim>\<open>2\<close>, \<^verbatim>\<open>2.\<close> and \<^verbatim>\<open>19/6\<close> (integer division, so \<open>3\<close>) is the power
  \<open>x ^ 2\<close>, \<open>x ^ 2\<close> and \<open>x ^ 3\<close>. A quotient with divisor 0 is 0 here, where the
  program gets an infinity or NaN; in the time loop every such quotient (of the two
  norms, of the two flows, of the pressure and its equilibrium value) feeds one
  comparison with a tolerance below 1, which is false for all three values, and the
  statements on the hydraulic functions keep their divisors away from 0 by hypothesis.
  Only the guard of the transport assembly, which tests for NaN and infinities, is
  modelled over an extended value type (section \<open>Transport assembly\<close>).
  \<^verbatim>\<open>std::string::compare(..) == 0\<close> is equality of
  strings, \<^verbatim>\<open>unsigned int\<close> is a 32-bit word, and a C++ \<^verbatim>\<open>throw n\<close> of an
  \<^verbatim>\<open>int\<close> is the left injection \<open>Inl (Thrown n)\<close> of the result.
\<close>

datatype exn = Thrown int

section \<open>Hydraulic properties\<close>

record Hydraulic_Properties =
  type_of_hydraulic_properties :: string
  moisture_content_saturation :: real
  moisture_content_residual :: real
  hydraulic_conductivity_saturated :: real
  van_genuchten_alpha :: real
  van_genuchten_n :: real
  van_genuchten_m :: real

text \<open>The constructor: the only place where \<open>van_genuchten_m\<close> is written.\<close>

definition Hydraulic_Properties_ctor ::
  "string \<Rightarrow> real \<Rightarrow> real \<Rightarrow> real \<Rightarrow> real \<Rightarrow> real \<Rightarrow> Hydraulic_Properties" where
  "Hydraulic_Properties_ctor type_of_hydraulic_properties' moisture_content_saturation'
     moisture_content_residual' hydraulic_conductivity_saturated'
     van_genuchten_alpha' van_genuchten_n' =
   \<lparr> type_of_hydraulic_properties = type_of_hydraulic_properties',
     moisture_content_saturation = moisture_content_saturation',
     moisture_content_residual = moisture_content_residual',
     hydraulic_conductivity_saturated = hydraulic_conductivity_saturated',
     van_genuchten_alpha = van_genuchten_alpha',
     van_genuchten_n = van_genuchten_n',
     van_genuchten_m = 1 - 1 / van_genuchten_n' \<rparr>"

definition get_specific_moisture_capacity :: "Hydraulic_Properties \<Rightarrow> real \<Rightarrow> exn + real" where
  "get_specific_moisture_capacity hp pressure_head =
    (if type_of_hydraulic_properties hp = ''haverkamp_et_al_1977'' then
       (let alpha = 1611000; beta = 3.96 in
        Inr (- 1 * alpha * (moisture_content_saturation hp - moisture_content_residual hp)
               * beta * pressure_head * (\<bar>pressure_head\<bar> powr (beta - 2))
             / (alpha + \<bar>pressure_head\<bar> powr beta) ^ 2))
     else if type_of_hydraulic_properties hp = ''van_genuchten_1980'' then
       (let pressure_head = (if pressure_head \<ge> 0 then - 0.01 else pressure_head) in
        Inr (- 1 * van_genuchten_alpha hp * van_genuchten_m hp * van_genuchten_n hp
               * (moisture_content_saturation hp - moisture_content_residual hp)
               * ((van_genuchten_alpha hp * \<bar>pressure_head\<bar>) powr (van_genuchten_n hp - 1))
               * ((1 + (van_genuchten_alpha hp * \<bar>pressure_head\<bar>) powr van_genuchten_n hp)
                    powr (- 1 * van_genuchten_m hp - 1))
               * pressure_head / \<bar>pressure_head\<bar>))
     else Inl (Thrown (- 1)))"

definition get_effective_total_saturation :: "Hydraulic_Properties \<Rightarrow> real \<Rightarrow> exn + real" where
  "get_effective_total_saturation hp pressure_head =
    (if type_of_hydraulic_properties hp = ''van_genuchten_1980'' then
       Inr (if pressure_head \<ge> 0 then 1
            else 1 / ((1 + (van_genuchten_alpha hp * \<bar>pressure_head\<bar>) powr van_genuchten_n hp)
                        powr van_genuchten_m hp))
     else Inl (Thrown (- 1)))"

definition get_actual_total_saturation :: "Hydraulic_Properties \<Rightarrow> real \<Rightarrow> exn + real" where
  "get_actual_total_saturation hp pressure_head =
    (case get_effective_total_saturation hp pressure_head of
       Inl e \<Rightarrow> Inl e
     | Inr effective_total_saturation \<Rightarrow>
         Inr ((moisture_content_residual hp / moisture_content_saturation hp)
              + (1 - moisture_content_residual hp / moisture_content_saturation hp)
                * effective_total_saturation))"

definition get_effective_biomass_saturation :: "Hydraulic_Properties \<Rightarrow> real \<Rightarrow> real \<Rightarrow> real" where
  "get_effective_biomass_saturation hp biomass_concentration biomass_dry_density =
    (let actual_biomass_saturation = biomass_concentration / biomass_dry_density;
         effective_biomass_saturation =
           actual_biomass_saturation
           / (1 - (moisture_content_residual hp / moisture_content_saturation hp))
     in if effective_biomass_saturation > 1 then 1 else effective_biomass_saturation)"

definition get_actual_biomass_saturation :: "Hydraulic_Properties \<Rightarrow> real \<Rightarrow> real \<Rightarrow> real" where
  "get_actual_biomass_saturation hp biomass_concentration biomass_dry_density =
     get_effective_biomass_saturation hp biomass_concentration biomass_dry_density
     * (1 - (moisture_content_residual hp / moisture_content_saturation hp))"

definition get_effective_free_saturation ::
  "Hydraulic_Properties \<Rightarrow> real \<Rightarrow> real \<Rightarrow> real \<Rightarrow> exn + real" where
  "get_effective_free_saturation hp pressure_head biomass_concentration biomass_dry_density =
    (case get_effective_total_saturation hp pressure_head of
       Inl e \<Rightarrow> Inl e
     | Inr effective_total_saturation \<Rightarrow>
         (let effective_free_saturation =
                effective_total_saturation
                - get_effective_biomass_saturation hp biomass_concentration biomass_dry_density
          in Inr (if effective_free_saturation \<le> 0 then 0 else effective_free_saturation)))"

text \<open>
  The relative permeability of the van Genuchten family, one branch per model name in
  the order of the source; an unknown name throws.
\<close>

definition relative_permeability_of ::
  "Hydraulic_Properties \<Rightarrow> string \<Rightarrow> real \<Rightarrow> real \<Rightarrow> real \<Rightarrow> real \<Rightarrow> exn + real" where
  "relative_permeability_of hp relative_permeability_model effective_total_saturation
     effective_biomass_saturation biomass_concentration biomass_dry_density =
    (if relative_permeability_model = ''soleimani'' then
       Inr ((effective_total_saturation powr 0.5)
            * ((1 - effective_biomass_saturation powr (1 / van_genuchten_m hp))
                  powr van_genuchten_m hp
               - (1 - effective_total_saturation powr (1 / van_genuchten_m hp))
                  powr van_genuchten_m hp) ^ 2)
     else if relative_permeability_model = ''clement'' then
       Inr (if biomass_concentration / biomass_dry_density < 1
            then (1 - biomass_concentration / biomass_dry_density) ^ 3 else 0)
     else if relative_permeability_model = ''okubo_and_matsumoto'' then
       Inr (if biomass_concentration / biomass_dry_density < 1
            then (1 - biomass_concentration / biomass_dry_density) ^ 2 else 0)
     else if relative_permeability_model = ''vandevivere'' then
       Inr (if biomass_concentration / biomass_dry_density < 1
            then (let plug_hydraulic_conductivity = 0.00025;
                      critical_biovolume_fraction = 0.1;
                      biovolume_fraction = biomass_concentration / biomass_dry_density;
                      phi = exp (- 0.5 * (biovolume_fraction / critical_biovolume_fraction) ^ 2)
                  in phi * (1 - biovolume_fraction) ^ 2
                     + (1 - phi) * plug_hydraulic_conductivity
                       / (plug_hydraulic_conductivity
                          + biovolume_fraction * (1 - plug_hydraulic_conductivity)))
            else 0)
     else Inl (Thrown (- 1)))"

definition get_hydraulic_conductivity ::
  "Hydraulic_Properties \<Rightarrow> real \<Rightarrow> real \<Rightarrow> real \<Rightarrow> string \<Rightarrow> exn + real" where
  "get_hydraulic_conductivity hp pressure_head biomass_concentration biomass_dry_density
     relative_permeability_model =
    (if type_of_hydraulic_properties hp = ''haverkamp_et_al_1977'' then
       (let gamma = 4.74; A = 1175000 in
        Inr (hydraulic_conductivity_saturated hp * A / (A + \<bar>pressure_head\<bar> powr gamma)))
     else if type_of_hydraulic_properties hp = ''van_genuchten_1980'' then
       (case get_effective_total_saturation hp pressure_head of
          Inl e \<Rightarrow> Inl e
        | Inr effective_total_saturation0 \<Rightarrow>
           (let effective_biomass_saturation =
                  get_effective_biomass_saturation hp biomass_concentration biomass_dry_density;
                effective_total_saturation =
                  (if effective_biomass_saturation > effective_total_saturation0
                   then effective_biomass_saturation else effective_total_saturation0)
            in case relative_permeability_of hp relative_permeability_model
                      effective_total_saturation effective_biomass_saturation
                      biomass_concentration biomass_dry_density of
                 Inl e \<Rightarrow> Inl e
               | Inr relative_permeability \<Rightarrow>
                   Inr (hydraulic_conductivity_saturated hp * relative_permeability)))
     else Inl (Thrown (- 1)))"

definition get_moisture_content_total :: "Hydraulic_Properties \<Rightarrow> real \<Rightarrow> exn + real" where
  "get_moisture_content_total hp pressure_head =
    (case get_effective_total_saturation hp pressure_head of
       Inl e \<Rightarrow> Inl e
     | Inr effective_total_saturation \<Rightarrow>
         Inr ((moisture_content_saturation hp - moisture_content_residual hp)
              * effective_total_saturation + moisture_content_residual hp))"

definition get_moisture_content_free ::
  "Hydraulic_Properties \<Rightarrow> real \<Rightarrow> real \<Rightarrow> real \<Rightarrow> exn + real" where
  "get_moisture_content_free hp pressure_head biomass_concentration biomass_dry_density =
    (case get_effective_free_saturation hp pressure_head biomass_concentration
            biomass_dry_density of
       Inl e \<Rightarrow> Inl e
     | Inr effective_free_saturation \<Rightarrow>
         Inr ((moisture_content_saturation hp - moisture_content_residual hp)
              * effective_free_saturation + moisture_content_residual hp))"

section \<open>The simulation state and its constructor\<close>

text \<open>
  \<^verbatim>\<open>Parameters.h\<close> is not part of the sources at hand; the record below holds the
  fields of \<^verbatim>\<open>parameters\<close> that the modelled code reads, under their names in
  the source (prefixed with \<open>p_\<close> where the simulation object has a member of the
  same name).
\<close>

record Parameters =
  initial_state :: string
  p_timestep_number_max :: "32 word"
  p_time_step :: real
  test_function_transport :: bool
  p_coupled_transport :: bool
  richards_bottom_fixed_value :: real
  domain_size :: real
  richards_fixed_at_top :: bool
  output_frequency_transport :: real

text \<open>
  The members of \<^verbatim>\<open>Heat_Pipe<dim>\<close> that steer the time loop. The nodal vectors,
  the matrices and the accounting totals belong to the finite-element services and
  are not part of this state; no modelled branch reads them.
\<close>

record Heat_Pipe =
  timestep_number :: "32 word"
  time :: real
  time_step :: real
  milestone_time :: real
  time_for_dry_conditions :: real
  time_for_saturated_conditions :: real
  transient_drying :: bool
  transient_saturation :: bool
  transient_transport :: bool
  test_transport :: bool
  coupled_transport :: bool
  figure_count :: "32 word"
  redefine_time_step :: bool

text \<open>
  \<^verbatim>\<open>solve_flow\<close> is set to \<^verbatim>\<open>true\<close> by the constructor and never written
  again.
\<close>

definition solve_flow :: bool where
  "solve_flow = True"

text \<open>
  The constructor \<^verbatim>\<open>Heat_Pipe<dim>::Heat_Pipe\<close>: the phase flags follow the
  configured initial state, and an unknown initial state throws \<^verbatim>\<open>1\<close>.
\<close>

definition Heat_Pipe_ctor :: "Parameters \<Rightarrow> exn + Heat_Pipe" where
  "Heat_Pipe_ctor parameters =
    (let hp = \<lparr> timestep_number = 0, time = 0, time_step = p_time_step parameters,
                 milestone_time = 0, time_for_dry_conditions = 0,
                 time_for_saturated_conditions = 0,
                 transient_drying = False, transient_saturation = False,
                 transient_transport = False,
                 test_transport = test_function_transport parameters,
                 coupled_transport = p_coupled_transport parameters,
                 figure_count = 0, redefine_time_step = False \<rparr>
     in if initial_state parameters = ''default'' \<or> initial_state parameters = ''final'' then
          Inr (hp\<lparr>transient_drying := True, transient_saturation := False,
                  transient_transport := False\<rparr>)
        else if initial_state parameters = ''dry'' then
          Inr (hp\<lparr>transient_drying := False, transient_saturation := True,
                  transient_transport := False\<rparr>)
        else if initial_state parameters = ''saturated'' then
          Inr (hp\<lparr>transient_drying := False, transient_saturation := False,
                  transient_transport := True\<rparr>)
        else if initial_state parameters = ''no_drying'' then
          Inr (hp\<lparr>transient_drying := False, transient_saturation := True,
                  transient_transport := False\<rparr>)
        else Inl (Thrown 1))"

section \<open>The Picard loop of one time step\<close>

text \<open>
  The locals of \<^verbatim>\<open>run\<close> that live for one time step.
\<close>

record Picard_Locals =
  relative_error_flow :: real
  relative_error_transport :: real
  old_norm_flow :: real
  new_norm_flow :: real
  old_norm_transport :: real
  new_norm_transport :: real
  iteration :: "32 word"
  step :: "32 word"
  remain_in_loop :: bool

definition initial_locals :: Picard_Locals where
  "initial_locals =
    \<lparr> relative_error_flow = 1000, relative_error_transport = 0,
      old_norm_flow = 0, new_norm_flow = 0,
      old_norm_transport = 0, new_norm_transport = 0,
      iteration = 0, step = 0, remain_in_loop = True \<rparr>"

text \<open>
  What the assembly and the linear solvers deliver in one pass of the loop: the squared
  norms \<^verbatim>\<open>solution_flow_old_iteration.norm_sqr()\<close>,
  \<^verbatim>\<open>solution_flow_new_iteration.norm_sqr()\<close> and \<^verbatim>\<open>solution_transport.norm_sqr()\<close>.
  A pass in which an assembly routine throws delivers the exception instead.
\<close>

record Solves =
  flow_old_norm_sqr :: real
  flow_new_norm_sqr :: real
  transport_norm_sqr :: real

text \<open>The stall recovery at the head of the loop body.\<close>

definition stall_recovery :: "Heat_Pipe \<times> Picard_Locals \<Rightarrow> Heat_Pipe \<times> Picard_Locals" where
  "stall_recovery s =
    (case s of (hp, l) \<Rightarrow>
      if transient_transport hp \<and> iteration l = 40 then
        (hp\<lparr>time_step := time_step hp / 2\<rparr>,
         l\<lparr>relative_error_flow := 1000, relative_error_transport := 0, iteration := 0\<rparr>)
      else (hp, l))"

text \<open>The two solve blocks: flow, then transport.\<close>

definition solve_flow_block :: "Solves \<Rightarrow> Heat_Pipe \<Rightarrow> Picard_Locals \<Rightarrow> Picard_Locals" where
  "solve_flow_block sv hp l =
    (if solve_flow \<and> \<not> test_transport hp then
       l\<lparr>old_norm_flow := flow_old_norm_sqr sv,
         new_norm_flow := flow_new_norm_sqr sv,
         relative_error_flow := \<bar>1 - flow_old_norm_sqr sv / flow_new_norm_sqr sv\<bar>\<rparr>
     else l)"

definition solve_transport_block :: "Solves \<Rightarrow> Heat_Pipe \<Rightarrow> Picard_Locals \<Rightarrow> Picard_Locals" where
  "solve_transport_block sv hp l =
    (if (transient_transport hp \<or> test_transport hp) \<and> coupled_transport hp then
       l\<lparr>new_norm_transport := transport_norm_sqr sv,
         relative_error_transport :=
           100 * \<bar>1 - \<bar>old_norm_transport l / transport_norm_sqr sv\<bar>\<bar>,
         old_norm_transport := transport_norm_sqr sv\<rparr>
     else l)"

text \<open>The test that decides whether the loop is left.\<close>

definition convergence_test :: "Heat_Pipe \<Rightarrow> Picard_Locals \<Rightarrow> Picard_Locals" where
  "convergence_test hp l =
    (if \<not> test_transport hp then
       (if relative_error_flow l < 1 / 10 ^ 8 \<and> relative_error_transport l \<le> 1 / 10 ^ 3
           \<and> iteration l \<noteq> 0
        then l\<lparr>remain_in_loop := False\<rparr> else l)
     else
       (if relative_error_transport l < 15 / 10 ^ 8
        then l\<lparr>remain_in_loop := False\<rparr> else l))"

definition update_iteration :: "Picard_Locals \<Rightarrow> Picard_Locals" where
  "update_iteration l = l\<lparr>iteration := iteration l + 1, step := step l + 1\<rparr>"

text \<open>
  One pass of the \<^verbatim>\<open>do\<close> body. The state reached just before the convergence test
  is named, since the test reads it.
\<close>

definition before_test :: "Solves \<Rightarrow> Heat_Pipe \<times> Picard_Locals \<Rightarrow> Heat_Pipe \<times> Picard_Locals" where
  "before_test sv s =
    (case stall_recovery s of (hp, l) \<Rightarrow>
       (hp, solve_transport_block sv hp (solve_flow_block sv hp l)))"

definition picard_pass ::
  "exn + Solves \<Rightarrow> Heat_Pipe \<times> Picard_Locals \<Rightarrow> exn + Heat_Pipe \<times> Picard_Locals" where
  "picard_pass delivered s =
    (case delivered of
       Inl e \<Rightarrow> Inl e
     | Inr sv \<Rightarrow>
        (case before_test sv s of (hp, l) \<Rightarrow>
           Inr (hp, update_iteration (convergence_test hp l))))"

text \<open>
  The \<^verbatim>\<open>do ... while (remain_in_loop)\<close> loop. Nothing bounds the number of passes,
  so the model takes fuel: \<open>None\<close> is a loop that has not been left after \<open>fuel\<close>
  passes. \<open>solver k\<close> is what pass number \<open>k\<close> of this time step delivers.
\<close>

fun picard_loop ::
  "nat \<Rightarrow> (nat \<Rightarrow> exn + Solves) \<Rightarrow> nat \<Rightarrow> Heat_Pipe \<times> Picard_Locals
     \<Rightarrow> (exn + Heat_Pipe \<times> Picard_Locals) option" where
  "picard_loop 0 solver k s = None"
| "picard_loop (Suc fuel) solver k s =
    (case picard_pass (solver k) s of
       Inl e \<Rightarrow> Some (Inl e)
     | Inr s' \<Rightarrow>
         if remain_in_loop (snd s') then picard_loop fuel solver (Suc k) s'
         else Some (Inr s'))"

section \<open>Committing a time step\<close>

text \<open>
  What the finite-element services report once the loop of a time step is left: the
  deliveries of its passes, the pressure \<^verbatim>\<open>VectorTools::point_value\<close> finds at the
  top of the domain (\<^verbatim>\<open>main\<close> instantiates \<open>dim = 2\<close>), and the water flows the
  flow assembly has accumulated at the two boundaries.
\<close>

record Step_Env =
  solver :: "nat \<Rightarrow> exn + Solves"
  pressure_at_top :: real
  flow_at_top :: real
  flow_at_bottom :: real

definition advance_time :: "Heat_Pipe \<Rightarrow> Heat_Pipe" where
  "advance_time hp = hp\<lparr>time := time hp + time_step hp\<rparr>"

definition drying_condition :: "Parameters \<Rightarrow> Step_Env \<Rightarrow> bool" where
  "drying_condition parameters env =
    (let relative_tolerance_drying = 31 / 10 ^ 5;
         relative_error_drying =
           pressure_at_top env
           / (richards_bottom_fixed_value parameters - domain_size parameters)
     in \<bar>1 - relative_error_drying\<bar> < relative_tolerance_drying)"

definition drying_stage :: "Parameters \<Rightarrow> Step_Env \<Rightarrow> Heat_Pipe \<Rightarrow> Heat_Pipe" where
  "drying_stage parameters env hp =
    (if transient_drying hp then
       (if drying_condition parameters env then
          hp\<lparr>figure_count := 0, transient_drying := False, transient_saturation := True,
             redefine_time_step := True, time_for_dry_conditions := time hp,
             milestone_time := time hp\<rparr>
        else hp)
     else hp)"

definition saturation_errors :: "Parameters \<Rightarrow> Step_Env \<Rightarrow> real \<times> real" where
  "saturation_errors parameters env =
    (if \<not> richards_fixed_at_top parameters then (0, 0)
     else (\<bar>1 - \<bar>flow_at_top env / flow_at_bottom env\<bar>\<bar>,
           \<bar>flow_at_top env + flow_at_bottom env\<bar>))"

definition saturation_stage :: "Parameters \<Rightarrow> Step_Env \<Rightarrow> Heat_Pipe \<Rightarrow> Heat_Pipe" where
  "saturation_stage parameters env hp =
    (if transient_saturation hp \<and> coupled_transport hp then
       (let relative_tolerance_saturation = 2 / 10 ^ 2;
            absolute_tolerance_saturation = 3 / 10 ^ 6;
            relative_error_saturation = fst (saturation_errors parameters env);
            absolute_error_saturation = snd (saturation_errors parameters env)
        in if relative_error_saturation < relative_tolerance_saturation
              \<or> absolute_error_saturation < absolute_tolerance_saturation
           then hp\<lparr>transient_saturation := False, transient_transport := True,
                   redefine_time_step := True, figure_count := 0,
                   time_for_saturated_conditions := time hp - milestone_time hp,
                   milestone_time := time hp\<rparr>
           else hp)
     else hp)"

definition choose_period :: "Parameters \<Rightarrow> Step_Env \<Rightarrow> Heat_Pipe \<Rightarrow> Heat_Pipe" where
  "choose_period parameters env hp =
    (if \<not> test_transport hp
     then saturation_stage parameters env (drying_stage parameters env hp)
     else hp)"

text \<open>Writing the solution files counts the figures; the files are not modelled.\<close>

definition output_stage :: "Parameters \<Rightarrow> Heat_Pipe \<Rightarrow> Heat_Pipe" where
  "output_stage parameters hp =
    (let output_frequency_drying = 1;
         output_frequency_saturation = 1;
         output_frequency_transport = output_frequency_transport parameters;
         count = real (unat (figure_count hp))
     in if (transient_drying hp
              \<and> time hp - milestone_time hp \<ge> count * output_frequency_drying)
           \<or> (transient_saturation hp
              \<and> time hp - milestone_time hp \<ge> count * output_frequency_saturation)
           \<or> (transient_transport hp \<and> output_frequency_transport \<noteq> 0
              \<and> time hp - milestone_time hp \<ge> count * output_frequency_transport)
           \<or> timestep_number hp = p_timestep_number_max parameters - 1
        then hp\<lparr>figure_count := figure_count hp + 1\<rparr>
        else hp)"

text \<open>
  The update of the step size, in its two parts: the adaptation (reset after a phase
  transition, else doubling after a quick loop) and the clamping.
\<close>

definition adapt_time_step :: "32 word \<Rightarrow> Heat_Pipe \<Rightarrow> Heat_Pipe" where
  "adapt_time_step step_count hp =
    (if redefine_time_step hp then hp\<lparr>time_step := 1, redefine_time_step := False\<rparr>
     else if step_count < 15 then
       (if transient_drying hp \<or> transient_transport hp
        then hp\<lparr>time_step := time_step hp * 2\<rparr>
        else hp\<lparr>time_step := time_step hp * 2\<rparr>)
     else hp)"

definition clamp_time_step :: "Heat_Pipe \<Rightarrow> Heat_Pipe" where
  "clamp_time_step hp =
    (let hp1 = (if time_step hp < 1 then hp\<lparr>time_step := 1\<rparr> else hp)
     in if time_step hp1 > 1 \<and> transient_drying hp1 then hp1\<lparr>time_step := 1\<rparr>
        else if time_step hp1 > 1 \<and> transient_saturation hp1 then hp1\<lparr>time_step := 1\<rparr>
        else if time_step hp1 > 60 \<and> transient_transport hp1 then hp1\<lparr>time_step := 60\<rparr>
        else hp1)"

definition update_timestep :: "32 word \<Rightarrow> Heat_Pipe \<Rightarrow> Heat_Pipe" where
  "update_timestep step_count hp =
    (if \<not> test_transport hp then clamp_time_step (adapt_time_step step_count hp) else hp)"

text \<open>Everything \<^verbatim>\<open>run\<close> does to the state after the loop of a time step.\<close>

definition commit :: "Parameters \<Rightarrow> Step_Env \<Rightarrow> 32 word \<Rightarrow> Heat_Pipe \<Rightarrow> Heat_Pipe" where
  "commit parameters env step_count hp =
     update_timestep step_count
       (output_stage parameters (choose_period parameters env (advance_time hp)))"

text \<open>The body of the \<^verbatim>\<open>for\<close> loop over the time steps, and the loop.\<close>

definition time_step_body ::
  "nat \<Rightarrow> Parameters \<Rightarrow> Step_Env \<Rightarrow> Heat_Pipe \<Rightarrow> (exn + Heat_Pipe) option" where
  "time_step_body fuel parameters env hp =
    (case picard_loop fuel (solver env) 0 (hp, initial_locals) of
       None \<Rightarrow> None
     | Some (Inl e) \<Rightarrow> Some (Inl e)
     | Some (Inr (hp', l)) \<Rightarrow> Some (Inr (commit parameters env (step l) hp')))"

fun run_steps ::
  "nat \<Rightarrow> Parameters \<Rightarrow> (nat \<Rightarrow> Step_Env) \<Rightarrow> nat list \<Rightarrow> Heat_Pipe
     \<Rightarrow> (exn + Heat_Pipe) option" where
  "run_steps fuel parameters envs [] hp = Some (Inr hp)"
| "run_steps fuel parameters envs (n # ns) hp =
    (case time_step_body fuel parameters (envs n) (hp\<lparr>timestep_number := of_nat n\<rparr>) of
       None \<Rightarrow> None
     | Some (Inl e) \<Rightarrow> Some (Inl e)
     | Some (Inr hp') \<Rightarrow> run_steps fuel parameters envs ns hp')"

text \<open>
  \<^verbatim>\<open>run\<close>: the time steps \<open>1, 2, ...\<close> below \<^verbatim>\<open>timestep_number_max\<close>, from the
  state the constructor leaves. Before the first step \<^verbatim>\<open>read_grid\<close>,
  \<^verbatim>\<open>setup_system\<close> and \<^verbatim>\<open>initial_condition\<close> run; they write none of the members
  kept here, but \<^verbatim>\<open>initial_condition\<close> throws when a state file is missing, which
  \<open>startup\<close> reports. \<^verbatim>\<open>refine_grid\<close>, at the head of every time step, writes none
  of them either. The \<^verbatim>\<open>for\<close> statement starts \<^verbatim>\<open>timestep_number\<close> at 1 and
  increments it after every step, so it leaves the loop with the first value that is
  not below \<^verbatim>\<open>timestep_number_max\<close>.
\<close>

definition run ::
  "nat \<Rightarrow> Parameters \<Rightarrow> exn option \<Rightarrow> (nat \<Rightarrow> Step_Env) \<Rightarrow> (exn + Heat_Pipe) option" where
  "run fuel parameters startup envs =
    (case Heat_Pipe_ctor parameters of
       Inl e \<Rightarrow> Some (Inl e)
     | Inr hp \<Rightarrow>
        (case startup of
           Some e \<Rightarrow> Some (Inl e)
         | None \<Rightarrow>
            (case run_steps fuel parameters envs
                    [1 ..< unat (p_timestep_number_max parameters)] hp of
               None \<Rightarrow> None
             | Some (Inl e) \<Rightarrow> Some (Inl e)
             | Some (Inr hp') \<Rightarrow>
                 Some (Inr (hp'\<lparr>timestep_number :=
                              (if p_timestep_number_max parameters \<le> 1 then 1
                               else p_timestep_number_max parameters)\<rparr>)))))"

section \<open>Transport assembly: the guard on the stabilisation parameters\<close>

text \<open>
  The guard of \<^verbatim>\<open>assemble_system_transport\<close> asks whether values are NaN or
  infinite, so here a \<^verbatim>\<open>double\<close> is a finite real or one of the three special
  values. Arithmetic on finite values is exact and yields the special values only
  through a division by zero; zero carries no sign (it divides like \<open>+0\<close>).
  Comparisons with NaN are false.
\<close>

datatype ieee = Finite real | PInf | MInf | NaN

definition is_nan :: "ieee \<Rightarrow> bool" where
  "is_nan x = (case x of NaN \<Rightarrow> True | _ \<Rightarrow> False)"

definition is_finite :: "ieee \<Rightarrow> bool" where
  "is_finite x = (case x of Finite r \<Rightarrow> True | _ \<Rightarrow> False)"

fun ieee_less :: "ieee \<Rightarrow> ieee \<Rightarrow> bool" where
  "ieee_less NaN y = False"
| "ieee_less x NaN = False"
| "ieee_less (Finite a) (Finite b) = (a < b)"
| "ieee_less x MInf = False"
| "ieee_less MInf y = True"
| "ieee_less PInf y = False"
| "ieee_less (Finite a) PInf = True"

fun ieee_le :: "ieee \<Rightarrow> ieee \<Rightarrow> bool" where
  "ieee_le NaN y = False"
| "ieee_le x NaN = False"
| "ieee_le (Finite a) (Finite b) = (a \<le> b)"
| "ieee_le MInf y = True"
| "ieee_le x PInf = True"
| "ieee_le x MInf = False"
| "ieee_le PInf y = False"

fun ieee_add :: "ieee \<Rightarrow> ieee \<Rightarrow> ieee" where
  "ieee_add NaN y = NaN"
| "ieee_add x NaN = NaN"
| "ieee_add (Finite a) (Finite b) = Finite (a + b)"
| "ieee_add PInf MInf = NaN"
| "ieee_add MInf PInf = NaN"
| "ieee_add PInf y = PInf"
| "ieee_add x PInf = PInf"
| "ieee_add MInf y = MInf"
| "ieee_add x MInf = MInf"

fun ieee_neg :: "ieee \<Rightarrow> ieee" where
  "ieee_neg NaN = NaN"
| "ieee_neg (Finite a) = Finite (- a)"
| "ieee_neg PInf = MInf"
| "ieee_neg MInf = PInf"

definition ieee_sub :: "ieee \<Rightarrow> ieee \<Rightarrow> ieee" where
  "ieee_sub x y = ieee_add x (ieee_neg y)"

definition signed_inf :: "bool \<Rightarrow> ieee" where
  "signed_inf positive = (if positive then PInf else MInf)"

fun ieee_mul :: "ieee \<Rightarrow> ieee \<Rightarrow> ieee" where
  "ieee_mul NaN y = NaN"
| "ieee_mul x NaN = NaN"
| "ieee_mul (Finite a) (Finite b) = Finite (a * b)"
| "ieee_mul (Finite a) PInf = (if a = 0 then NaN else signed_inf (0 < a))"
| "ieee_mul (Finite a) MInf = (if a = 0 then NaN else signed_inf (a < 0))"
| "ieee_mul PInf (Finite b) = (if b = 0 then NaN else signed_inf (0 < b))"
| "ieee_mul MInf (Finite b) = (if b = 0 then NaN else signed_inf (b < 0))"
| "ieee_mul PInf PInf = PInf"
| "ieee_mul MInf MInf = PInf"
| "ieee_mul PInf MInf = MInf"
| "ieee_mul MInf PInf = MInf"

fun ieee_div :: "ieee \<Rightarrow> ieee \<Rightarrow> ieee" where
  "ieee_div NaN y = NaN"
| "ieee_div x NaN = NaN"
| "ieee_div (Finite a) (Finite b) =
     (if b \<noteq> 0 then Finite (a / b) else if a = 0 then NaN else signed_inf (0 < a))"
| "ieee_div (Finite a) y = Finite 0"
| "ieee_div PInf (Finite b) = signed_inf (0 \<le> b)"
| "ieee_div MInf (Finite b) = signed_inf (b < 0)"
| "ieee_div x y = NaN"

fun ieee_tanh :: "ieee \<Rightarrow> ieee" where
  "ieee_tanh NaN = NaN"
| "ieee_tanh (Finite a) = Finite (tanh a)"
| "ieee_tanh PInf = Finite 1"
| "ieee_tanh MInf = Finite (- 1)"

fun ieee_sqrt :: "ieee \<Rightarrow> ieee" where
  "ieee_sqrt NaN = NaN"
| "ieee_sqrt (Finite a) = (if 0 \<le> a then Finite (sqrt a) else NaN)"
| "ieee_sqrt PInf = PInf"
| "ieee_sqrt MInf = NaN"

text \<open>
  A \<^verbatim>\<open>Tensor<1,dim>\<close> is the list of its components; \<^verbatim>\<open>norm()\<close> is the square
  root of the sum of their squares, and assigning \<^verbatim>\<open>0.\<close> clears every component.
\<close>

definition tensor_norm :: "ieee list \<Rightarrow> ieee" where
  "tensor_norm v = ieee_sqrt (foldl ieee_add (Finite 0) (map (\<lambda>x. ieee_mul x x) v))"

definition zero_tensor :: "ieee list \<Rightarrow> ieee list" where
  "zero_tensor v = map (\<lambda>x. Finite 0) v"

text \<open>
  What one mesh element contributes to the guard: the cell-averaged velocities as they
  are after the division by \<^verbatim>\<open>dV\<close>, and \<^verbatim>\<open>cell->diameter()\<close>.
\<close>

record Cell =
  new_velocity :: "ieee list"
  old_velocity :: "ieee list"
  diameter :: ieee

record Transport_Parameters =
  dispersivity_longitudinal :: ieee
  effective_diffusion_coefficient :: ieee

text \<open>The small-velocity adjustment that precedes the guard.\<close>

definition adjust_velocities :: "Cell \<Rightarrow> ieee list \<times> ieee list" where
  "adjust_velocities c =
    (let (nv, ov) =
           (if ieee_less (tensor_norm (new_velocity c)) (Finite (1 / 10 ^ 6))
            then (zero_tensor (new_velocity c), zero_tensor (old_velocity c))
            else (new_velocity c, old_velocity c))
     in if ieee_le (Finite (1 / 10 ^ 6)) (tensor_norm nv)
           \<and> ieee_less (tensor_norm ov) (Finite (1 / 10 ^ 6))
        then (nv, nv) else (nv, ov))"

text \<open>The Peclet number and the two SUPG parameters of an element.\<close>

definition stabilization ::
  "Transport_Parameters \<Rightarrow> ieee list \<Rightarrow> ieee list \<Rightarrow> ieee \<Rightarrow> ieee \<times> ieee \<times> ieee" where
  "stabilization parameters nv ov diam =
    (let new_diffusion_value =
           ieee_add (ieee_mul (dispersivity_longitudinal parameters) (tensor_norm nv))
                    (effective_diffusion_coefficient parameters);
         old_diffusion_value =
           ieee_add (ieee_mul (dispersivity_longitudinal parameters) (tensor_norm ov))
                    (effective_diffusion_coefficient parameters);
         half = Finite 0.5
     in if ieee_le (Finite (1 / 10 ^ 6)) (tensor_norm nv)
           \<and> ieee_less (Finite (1 / 10 ^ 10)) new_diffusion_value
           \<and> ieee_less (Finite (1 / 10 ^ 10)) old_diffusion_value
        then
          (let mean_velocity =
                 ieee_add (ieee_mul half (tensor_norm nv)) (ieee_mul half (tensor_norm ov));
               Peclet =
                 ieee_div (ieee_mul (ieee_mul half diam) mean_velocity)
                   (ieee_add (ieee_mul half new_diffusion_value)
                             (ieee_mul half old_diffusion_value));
               beta = ieee_sub (ieee_div (Finite 1) (ieee_tanh Peclet))
                               (ieee_div (Finite 1) Peclet);
               tau = ieee_div (ieee_mul (ieee_mul half beta) diam) mean_velocity
           in (Peclet, beta, tau))
        else (Finite 0, Finite 0, Finite 0))"

text \<open>
  The five \<^verbatim>\<open>throw -1\<close> of the element loop. An element that passes goes on to the
  assembly of its matrices, which throws nowhere; its parameters stand for that.
\<close>

definition cell_guard :: "Transport_Parameters \<Rightarrow> Cell \<Rightarrow> exn + ieee \<times> ieee \<times> ieee" where
  "cell_guard parameters c =
    (case adjust_velocities c of (nv, ov) \<Rightarrow>
      if is_nan (tensor_norm nv) \<or> is_nan (tensor_norm ov) then Inl (Thrown (- 1))
      else if \<not> is_finite (tensor_norm nv) \<or> \<not> is_finite (tensor_norm ov)
        then Inl (Thrown (- 1))
      else
        (case stabilization parameters nv ov (diameter c) of (Peclet, beta, tau) \<Rightarrow>
          if ieee_less Peclet (Finite 0) \<or> ieee_less beta (Finite 0) \<or> ieee_less tau (Finite 0)
            then Inl (Thrown (- 1))
          else if is_nan Peclet \<or> is_nan beta \<or> is_nan tau then Inl (Thrown (- 1))
          else if \<not> is_finite Peclet \<or> \<not> is_finite beta \<or> \<not> is_finite tau
            then Inl (Thrown (- 1))
          else Inr (Peclet, beta, tau)))"

text \<open>The loop over the active cells stops at the first element that throws.\<close>

fun assemble_system_transport ::
  "Transport_Parameters \<Rightarrow> Cell list \<Rightarrow> exn + (ieee \<times> ieee \<times> ieee) list" where
  "assemble_system_transport parameters [] = Inr []"
| "assemble_system_transport parameters (c # cs) =
    (case cell_guard parameters c of
       Inl e \<Rightarrow> Inl e
     | Inr r \<Rightarrow>
        (case assemble_system_transport parameters cs of
           Inl e \<Rightarrow> Inl e
         | Inr rs \<Rightarrow> Inr (r # rs)))"

section \<open>Predicates of the statements\<close>

text \<open>The phase as the three flags encode it.\<close>

definition phase_flags :: "Heat_Pipe \<Rightarrow> bool \<times> bool \<times> bool" where
  "phase_flags hp = (transient_drying hp, transient_saturation hp, transient_transport hp)"

definition exactly_one_phase :: "Heat_Pipe \<Rightarrow> bool" where
  "exactly_one_phase hp =
    (length (filter id [transient_drying hp, transient_saturation hp, transient_transport hp])
       = 1)"

definition phase_rank :: "Heat_Pipe \<Rightarrow> nat" where
  "phase_rank hp =
    (if transient_drying hp then 0 else if transient_saturation hp then 1 else 2)"

text \<open>
  A value the transport guard must reject: NaN, infinite or negative; and its
  opposite, a finite value that is not negative.
\<close>

definition degenerate :: "ieee \<Rightarrow> bool" where
  "degenerate x = (is_nan x \<or> \<not> is_finite x \<or> ieee_less x (Finite 0))"

definition finite_nonneg :: "ieee \<Rightarrow> bool" where
  "finite_nonneg x = (case x of Finite r \<Rightarrow> 0 \<le> r | _ \<Rightarrow> False)"

text \<open>
  An element is degenerate when the norm of its cell-averaged new velocity is, or the
  norm of its cell-averaged old velocity is while the norm of the new one is not below
  \<open>1e-6\<close>, or one of the Peclet number, \<open>beta\<close> and \<open>tau\<close> the element loop
  computes is.
\<close>

definition cell_degenerate :: "Transport_Parameters \<Rightarrow> Cell \<Rightarrow> bool" where
  "cell_degenerate parameters c =
    (case adjust_velocities c of (nv, ov) \<Rightarrow>
      case stabilization parameters nv ov (diameter c) of (Peclet, beta, tau) \<Rightarrow>
        degenerate (tensor_norm (new_velocity c)) \<or>
        (\<not> ieee_less (tensor_norm (new_velocity c)) (Finite (1 / 10 ^ 6)) \<and>
         degenerate (tensor_norm (old_velocity c))) \<or>
        degenerate Peclet \<or> degenerate beta \<or> degenerate tau)"

section \<open>Concrete inputs\<close>

text \<open>
  A solver whose iterates do not move, an environment in which the top pressure has
  reached its equilibrium value \<open>2 - 1\<close>, and the states the constructor builds
  for the four phases and the two modes.
\<close>

definition example_solves :: Solves where
  "example_solves = \<lparr> flow_old_norm_sqr = 1, flow_new_norm_sqr = 1, transport_norm_sqr = 1 \<rparr>"

definition example_env :: Step_Env where
  "example_env =
    \<lparr> solver = (\<lambda>k. Inr example_solves), pressure_at_top = 1,
      flow_at_top = 5, flow_at_bottom = 1 \<rparr>"

definition example_envs :: "nat \<Rightarrow> Step_Env" where
  "example_envs n = example_env"

definition example_parameters :: "string \<Rightarrow> bool \<Rightarrow> Parameters" where
  "example_parameters state test_mode =
    \<lparr> initial_state = state, p_timestep_number_max = 10, p_time_step = 1,
      test_function_transport = test_mode, p_coupled_transport = True,
      richards_bottom_fixed_value = 2, domain_size = 1, richards_fixed_at_top = False,
      output_frequency_transport = 1 \<rparr>"

definition example_state :: "bool \<Rightarrow> bool \<Rightarrow> bool \<Rightarrow> bool \<Rightarrow> Heat_Pipe" where
  "example_state drying saturation transport test_mode =
    \<lparr> timestep_number = 0, time = 0, time_step = 1, milestone_time = 0,
      time_for_dry_conditions = 0, time_for_saturated_conditions = 0,
      transient_drying = drying, transient_saturation = saturation,
      transient_transport = transport,
      test_transport = test_mode, coupled_transport = True,
      figure_count = 0, redefine_time_step = False \<rparr>"

text \<open>
  The states after the first and the second time step of the run from
  \<open>example_state True False False False\<close> in \<open>example_envs\<close>.
\<close>

definition after_first_step :: Heat_Pipe where
  "after_first_step =
    \<lparr> timestep_number = 1, time = 1, time_step = 1, milestone_time = 1,
      time_for_dry_conditions = 1, time_for_saturated_conditions = 0,
      transient_drying = False, transient_saturation = False, transient_transport = True,
      test_transport = False, coupled_transport = True,
      figure_count = 1, redefine_time_step = False \<rparr>"

definition after_second_step :: Heat_Pipe where
  "after_second_step =
    \<lparr> timestep_number = 2, time = 2, time_step = 2, milestone_time = 1,
      time_for_dry_conditions = 1, time_for_saturated_conditions = 0,
      transient_drying = False, transient_saturation = False, transient_transport = True,
      test_transport = False, coupled_transport = True,
      figure_count = 2, redefine_time_step = False \<rparr>"

definition example_transport_parameters :: Transport_Parameters where
  "example_transport_parameters =
    \<lparr> dispersivity_longitudinal = Finite 1, effective_diffusion_coefficient = Finite 1 \<rparr>"

definition example_cell :: "ieee \<Rightarrow> Cell" where
  "example_cell x = \<lparr> new_velocity = [x, Finite 0], old_velocity = [Finite 0, Finite 0],
                       diameter = Finite 1 \<rparr>"

text \<open>
  An element with the new velocity \<open>(1, 0)\<close> and the diameter \<open>d\<close>, and an element
  at rest whose old velocity has the component \<open>x\<close>.
\<close>

definition moving_cell :: "ieee \<Rightarrow> Cell" where
  "moving_cell d = \<lparr> new_velocity = [Finite 1, Finite 0],
                      old_velocity = [Finite 0, Finite 0], diameter = d \<rparr>"

definition resting_cell :: "ieee \<Rightarrow> Cell" where
  "resting_cell x = \<lparr> new_velocity = [Finite 0, Finite 0], old_velocity = [x, Finite 0],
                       diameter = Finite 1 \<rparr>"

section \<open>Properties of the hydraulic model\<close>


lemma effective_biomass_saturation_cases:
  "get_effective_biomass_saturation hp c d = 1 \<and>
     1 < (c / d) / (1 - moisture_content_residual hp / moisture_content_saturation hp)
   \<or> get_effective_biomass_saturation hp c d
       = (c / d) / (1 - moisture_content_residual hp / moisture_content_saturation hp) \<and>
     (c / d) / (1 - moisture_content_residual hp / moisture_content_saturation hp) \<le> 1"
  unfolding get_effective_biomass_saturation_def Let_def
  by (simp only: split: if_split) linarith






text \<open>
  C7, as amended. The function has an upper clamp only, and it divides by
  \<open>1 - residual / saturation\<close>. For every biomass concentration that is not negative,
  every positive biomass dry density and every configuration whose residual moisture
  content is below its positive saturation moisture content, the effective biomass
  saturation lies in the closed interval from 0 to 1.
\<close>

theorem effective_biomass_saturation_range:
  assumes "0 \<le> c" and "0 < d" and "0 < moisture_content_saturation hp"
      and "moisture_content_residual hp < moisture_content_saturation hp"
  shows "0 \<le> get_effective_biomass_saturation hp c d
       \<and> get_effective_biomass_saturation hp c d \<le> 1"
proof -
  have "0 < 1 - moisture_content_residual hp / moisture_content_saturation hp"
    using assms by simp
  moreover have "0 \<le> c / d" using assms by simp
  ultimately have
    "0 \<le> (c / d) / (1 - moisture_content_residual hp / moisture_content_saturation hp)"
    by (rule divide_nonneg_pos [rotated])
  then show ?thesis
    using effective_biomass_saturation_cases [of hp c d] by linarith
qed

theorem effective_biomass_saturation_range_witness:
  "(0::real) \<le> 1 \<and> (0::real) < 4 \<and>
   0 < moisture_content_saturation (Hydraulic_Properties_ctor ''van_genuchten_1980'' 2 1 1 1 2) \<and>
   moisture_content_residual (Hydraulic_Properties_ctor ''van_genuchten_1980'' 2 1 1 1 2)
     < moisture_content_saturation (Hydraulic_Properties_ctor ''van_genuchten_1980'' 2 1 1 1 2) \<and>
   0 \<le> get_effective_biomass_saturation
          (Hydraulic_Properties_ctor ''van_genuchten_1980'' 2 1 1 1 2) 1 4 \<and>
   get_effective_biomass_saturation
     (Hydraulic_Properties_ctor ''van_genuchten_1980'' 2 1 1 1 2) 1 4 \<le> 1"
  using effective_biomass_saturation_range
    [of 1 4 "Hydraulic_Properties_ctor ''van_genuchten_1980'' 2 1 1 1 2"]
  by (simp add: Hydraulic_Properties_ctor_def)

text \<open>
  C7 as stated fails below 0, with dry density 1: at biomass concentration \<open>-1\<close>
  (residual 0, saturation 1) the result is \<open>-1\<close>, and at biomass concentration 1 with a
  residual moisture content 2 above the saturation moisture content 1 it is \<open>-1\<close> as
  well.
\<close>

theorem effective_biomass_saturation_negative_counterexample:
  "(0::real) < 1 \<and>
   get_effective_biomass_saturation
     (Hydraulic_Properties_ctor ''van_genuchten_1980'' 1 0 1 1 2) (- 1) 1 = - 1 \<and>
   get_effective_biomass_saturation
     (Hydraulic_Properties_ctor ''van_genuchten_1980'' 1 2 1 1 2) 1 1 = - 1 \<and>
   \<not> (0::real) \<le> - 1"
  by (simp add: get_effective_biomass_saturation_def Hydraulic_Properties_ctor_def)

text \<open>
  C8. Under the empirical family \<^verbatim>\<open>haverkamp_et_al_1977\<close> the hydraulic conductivity
  at pressure head \<open>-100\<close> is exactly \<open>Ks * A / (A + 100 powr 4.74)\<close> with
  \<open>A = 1175000\<close>, whatever the biomass concentration, the biomass dry density and the
  name of the relative-permeability model.
\<close>

theorem haverkamp_conductivity_at_minus_100:
  "type_of_hydraulic_properties hp = ''haverkamp_et_al_1977'' \<Longrightarrow>
   get_hydraulic_conductivity hp (- 100) biomass_concentration biomass_dry_density model
     = Inr (hydraulic_conductivity_saturated hp * 1175000 / (1175000 + 100 powr 4.74))"
  by (simp add: get_hydraulic_conductivity_def)

theorem haverkamp_conductivity_at_minus_100_witness:
  "type_of_hydraulic_properties
     (Hydraulic_Properties_ctor ''haverkamp_et_al_1977'' 2 1 3 1 2) = ''haverkamp_et_al_1977'' \<and>
   get_hydraulic_conductivity
     (Hydraulic_Properties_ctor ''haverkamp_et_al_1977'' 2 1 3 1 2) (- 100) 7 0 ''no_such_model''
     = Inr (3 * 1175000 / (1175000 + 100 powr 4.74))"
  using haverkamp_conductivity_at_minus_100
    [of "Hydraulic_Properties_ctor ''haverkamp_et_al_1977'' 2 1 3 1 2" 7 0 "''no_such_model''"]
  by (simp add: Hydraulic_Properties_ctor_def)

text \<open>
  C9. When the configured family is neither \<^verbatim>\<open>haverkamp_et_al_1977\<close> nor
  \<^verbatim>\<open>van_genuchten_1980\<close>, the specific moisture capacity, the effective total
  saturation and the hydraulic conductivity all throw \<open>-1\<close> and return no value. Under
  the van Genuchten family the hydraulic conductivity throws \<open>-1\<close> for every model
  name other than \<^verbatim>\<open>soleimani\<close>, \<^verbatim>\<open>clement\<close>, \<^verbatim>\<open>okubo_and_matsumoto\<close> and
  \<^verbatim>\<open>vandevivere\<close>.
\<close>

theorem unsupported_models_throw:
  "(type_of_hydraulic_properties hp \<noteq> ''haverkamp_et_al_1977'' \<longrightarrow>
    type_of_hydraulic_properties hp \<noteq> ''van_genuchten_1980'' \<longrightarrow>
      get_specific_moisture_capacity hp h = Inl (Thrown (- 1)) \<and>
      get_effective_total_saturation hp h = Inl (Thrown (- 1)) \<and>
      get_hydraulic_conductivity hp h c d model = Inl (Thrown (- 1)))
   \<and> (type_of_hydraulic_properties hp = ''van_genuchten_1980'' \<longrightarrow>
      model \<notin> {''soleimani'', ''clement'', ''okubo_and_matsumoto'', ''vandevivere''} \<longrightarrow>
      get_hydraulic_conductivity hp h c d model = Inl (Thrown (- 1)))"
  by (simp add: get_specific_moisture_capacity_def get_effective_total_saturation_def
        get_hydraulic_conductivity_def relative_permeability_of_def Let_def)

theorem unsupported_models_throw_witness:
  "get_specific_moisture_capacity
     (Hydraulic_Properties_ctor ''brooks_corey'' 2 1 3 1 2) (- 5) = Inl (Thrown (- 1)) \<and>
   get_effective_total_saturation
     (Hydraulic_Properties_ctor ''brooks_corey'' 2 1 3 1 2) (- 5) = Inl (Thrown (- 1)) \<and>
   get_hydraulic_conductivity
     (Hydraulic_Properties_ctor ''brooks_corey'' 2 1 3 1 2) (- 5) 0 1 ''soleimani''
     = Inl (Thrown (- 1)) \<and>
   get_hydraulic_conductivity
     (Hydraulic_Properties_ctor ''van_genuchten_1980'' 2 1 3 1 2) (- 5) 0 1 ''kozeny''
     = Inl (Thrown (- 1))"
  using unsupported_models_throw
    [of "Hydraulic_Properties_ctor ''brooks_corey'' 2 1 3 1 2" "- 5" 0 1 "''soleimani''"]
    unsupported_models_throw
    [of "Hydraulic_Properties_ctor ''van_genuchten_1980'' 2 1 3 1 2" "- 5" 0 1 "''kozeny''"]
  by (simp add: Hydraulic_Properties_ctor_def)

section \<open>Properties of the Picard loop\<close>

lemma stall_recovery_fst:
  "fst (stall_recovery (hp, l)) =
     (if transient_transport hp \<and> iteration l = 40
      then hp\<lparr>time_step := time_step hp / 2\<rparr> else hp)"
  by (simp add: stall_recovery_def)

lemma stall_recovery_snd:
  "snd (stall_recovery (hp, l)) =
     (if transient_transport hp \<and> iteration l = 40
      then l\<lparr>relative_error_flow := 1000, relative_error_transport := 0, iteration := 0\<rparr>
      else l)"
  by (simp add: stall_recovery_def)

lemma before_test_snd:
  "snd (before_test sv s) =
     solve_transport_block sv (fst (stall_recovery s))
       (solve_flow_block sv (fst (stall_recovery s)) (snd (stall_recovery s)))"
  by (simp add: before_test_def split: prod.splits)

lemma picard_pass_Inr:
  "picard_pass (Inr sv) s =
     Inr (fst (stall_recovery s),
          update_iteration (convergence_test (fst (stall_recovery s)) (snd (before_test sv s))))"
  by (simp add: picard_pass_def before_test_def split: prod.splits)

lemma before_test_remain:
  "remain_in_loop (snd (before_test sv (hp, l))) = remain_in_loop l"
  by (simp add: before_test_snd stall_recovery_snd solve_flow_block_def solve_transport_block_def)

lemma before_test_iteration:
  "iteration (snd (before_test sv (hp, l))) = iteration (snd (stall_recovery (hp, l)))"
  by (simp add: before_test_snd solve_flow_block_def solve_transport_block_def)

lemma before_test_flow_error:
  "\<not> test_transport hp \<Longrightarrow>
   relative_error_flow (snd (before_test sv (hp, l)))
     = \<bar>1 - flow_old_norm_sqr sv / flow_new_norm_sqr sv\<bar>"
  by (simp add: before_test_snd stall_recovery_fst solve_flow_block_def
        solve_transport_block_def solve_flow_def)

lemma before_test_transport_error_inactive:
  "\<not> test_transport hp \<Longrightarrow> \<not> transient_transport hp \<Longrightarrow>
   relative_error_transport (snd (before_test sv (hp, l))) = relative_error_transport l"
  by (simp add: before_test_snd stall_recovery_fst stall_recovery_snd solve_flow_block_def
        solve_transport_block_def)

lemma update_iteration_sel:
  "remain_in_loop (update_iteration l) = remain_in_loop l"
  "relative_error_transport (update_iteration l) = relative_error_transport l"
  "relative_error_flow (update_iteration l) = relative_error_flow l"
  "iteration (update_iteration l) = iteration l + 1"
  "step (update_iteration l) = step l + 1"
  by (simp_all add: update_iteration_def)

lemma convergence_test_remain:
  "\<not> test_transport hp \<Longrightarrow>
   remain_in_loop (convergence_test hp l) \<longleftrightarrow>
     remain_in_loop l \<and>
     \<not> (relative_error_flow l < 1 / 10 ^ 8 \<and> relative_error_transport l \<le> 1 / 10 ^ 3
         \<and> iteration l \<noteq> 0)"
  by (simp add: convergence_test_def)

lemma convergence_test_sel:
  "relative_error_transport (convergence_test hp l) = relative_error_transport l"
  "relative_error_flow (convergence_test hp l) = relative_error_flow l"
  "iteration (convergence_test hp l) = iteration l"
  "step (convergence_test hp l) = step l"
  by (simp_all add: convergence_test_def)

text \<open>
  While transport is inactive a pass leaves the simulation state and the transport
  error alone, so the error keeps its initial value 0 through the whole loop.
\<close>

lemma picard_pass_inactive:
  assumes "\<not> test_transport hp" and "\<not> transient_transport hp"
      and "picard_pass delivered (hp, l) = Inr (hp', l')"
  shows "hp' = hp \<and> relative_error_transport l' = relative_error_transport l"
proof (cases delivered)
  case (Inl e)
  with assms(3) show ?thesis by (simp add: picard_pass_def)
next
  case (Inr sv)
  from assms(3) have
    "hp' = fst (stall_recovery (hp, l))"
    "l' = update_iteration (convergence_test (fst (stall_recovery (hp, l)))
                              (snd (before_test sv (hp, l))))"
    unfolding Inr picard_pass_Inr by auto
  then show ?thesis
    using assms(1,2)
    by (simp add: stall_recovery_fst update_iteration_sel convergence_test_sel
          before_test_transport_error_inactive)
qed

lemma picard_loop_inactive:
  "picard_loop fuel sol k (hp, l) = Some (Inr (hp', l')) \<Longrightarrow>
   \<not> test_transport hp \<Longrightarrow> \<not> transient_transport hp \<Longrightarrow>
   relative_error_transport l' = relative_error_transport l"
proof (induction fuel arbitrary: k l)
  case 0
  then show ?case by simp
next
  case (Suc fuel)
  show ?case
  proof (cases "picard_pass (sol k) (hp, l)")
    case (Inl e)
    with Suc.prems(1) show ?thesis by simp
  next
    case (Inr s1)
    obtain h1 l1 where s1: "s1 = (h1, l1)" by (cases s1)
    from picard_pass_inactive [OF Suc.prems(2,3) Inr [unfolded s1]]
    have p: "h1 = hp" "relative_error_transport l1 = relative_error_transport l" by simp_all
    show ?thesis
    proof (cases "remain_in_loop l1")
      case True
      with Suc.prems(1) Inr s1 p(1)
      have "picard_loop fuel sol (Suc k) (hp, l1) = Some (Inr (hp', l'))" by simp
      from Suc.IH [OF this Suc.prems(2,3)] p(2) show ?thesis by simp
    next
      case False
      with Suc.prems(1) Inr s1 have "l' = l1" by simp
      with p(2) show ?thesis by simp
    qed
  qed
qed

text \<open>
  What holds when the loop is left: the pass that clears the continuation flag has
  passed the test, and the increment that follows takes the counter from a value other
  than 0 to a value other than 1.
\<close>

lemma picard_pass_exit:
  assumes "\<not> test_transport hp" and "remain_in_loop l"
      and "picard_pass delivered (hp, l) = Inr (hp', l')"
  shows "\<not> test_transport hp'"
    and "\<not> remain_in_loop l' \<Longrightarrow>
           relative_error_flow l' < 1 / 10 ^ 8 \<and> relative_error_transport l' \<le> 1 / 10 ^ 3 \<and>
           iteration l' \<noteq> 1"
proof -
  from assms(3) obtain sv where d: "delivered = Inr sv"
    by (cases delivered) (simp_all add: picard_pass_def)
  let ?s = "stall_recovery (hp, l)"
  let ?b = "snd (before_test sv (hp, l))"
  from assms(3) have
    h: "hp' = fst ?s" and l': "l' = update_iteration (convergence_test (fst ?s) ?b)"
    unfolding d picard_pass_Inr by auto
  show tt: "\<not> test_transport hp'"
    using assms(1) by (simp add: h stall_recovery_fst)
  assume "\<not> remain_in_loop l'"
  then have "\<not> remain_in_loop (convergence_test hp' ?b)"
    by (simp add: l' h update_iteration_sel)
  moreover have "remain_in_loop ?b"
    using assms(2) by (simp add: before_test_remain)
  ultimately have
    "relative_error_flow ?b < 1 / 10 ^ 8 \<and> relative_error_transport ?b \<le> 1 / 10 ^ 3 \<and>
     iteration ?b \<noteq> 0"
    using convergence_test_remain [OF tt, of ?b] by blast
  then show "relative_error_flow l' < 1 / 10 ^ 8 \<and> relative_error_transport l' \<le> 1 / 10 ^ 3 \<and>
           iteration l' \<noteq> 1"
    by (simp add: l' update_iteration_sel convergence_test_sel)
qed

lemma picard_loop_exit:
  "picard_loop fuel sol k (hp, l) = Some (Inr (hp', l')) \<Longrightarrow>
   \<not> test_transport hp \<Longrightarrow> remain_in_loop l \<Longrightarrow>
   \<not> remain_in_loop l' \<and> relative_error_flow l' < 1 / 10 ^ 8 \<and>
   relative_error_transport l' \<le> 1 / 10 ^ 3 \<and> iteration l' \<noteq> 1"
proof (induction fuel arbitrary: k hp l)
  case 0
  then show ?case by simp
next
  case (Suc fuel)
  show ?case
  proof (cases "picard_pass (sol k) (hp, l)")
    case (Inl e)
    with Suc.prems(1) show ?thesis by simp
  next
    case (Inr s1)
    obtain h1 l1 where s1: "s1 = (h1, l1)" by (cases s1)
    note p = picard_pass_exit [OF Suc.prems(2,3) Inr [unfolded s1]]
    show ?thesis
    proof (cases "remain_in_loop l1")
      case True
      with Suc.prems(1) Inr s1
      have "picard_loop fuel sol (Suc k) (h1, l1) = Some (Inr (hp', l'))" by simp
      from Suc.IH [OF this p(1) True] show ?thesis .
    next
      case False
      with Suc.prems(1) Inr s1 have "l' = l1" by simp
      with False p(2) show ?thesis by simp
    qed
  qed
qed

text \<open>
  C1. With the transport test mode disabled, a pass of the Picard loop that starts with
  the continuation flag set clears it (the loop is left after this pass) exactly when,
  at the test of this pass, the flow relative error is below \<open>1e-8\<close>, the transport
  relative error is at most \<open>1e-3\<close> and the iteration counter is not 0 (a pass has been
  completed since the loop started or restarted). The flow relative error at the test is
  \<open>\<bar>1 - old / new\<bar>\<close> of the two squared norms the flow solve delivers. While the
  transport phase is inactive the transport error stays 0: a pass preserves the value 0,
  it is the initial value, and so it holds when the loop is left. Whenever the loop is
  left without an exception, the three conditions hold of the values it leaves (the
  counter, incremented after the test, is then not 1). When a pass starts with the
  transport phase active and the iteration counter at 40, the step size is halved, the
  two errors are set to 1000 and 0 and the counter to 0; that pass does not leave the
  loop and changes nothing else of the simulation state, so the loop goes on within the
  same time step, with the counter at 1 after the pass.
\<close>

theorem picard_exit_and_stall_recovery:
  assumes "\<not> test_transport hp" and "remain_in_loop l"
  shows "\<exists>l'. picard_pass (Inr sv) (hp, l) = Inr (fst (stall_recovery (hp, l)), l') \<and>
           (\<not> remain_in_loop l' \<longleftrightarrow>
              relative_error_flow (snd (before_test sv (hp, l))) < 1 / 10 ^ 8 \<and>
              relative_error_transport (snd (before_test sv (hp, l))) \<le> 1 / 10 ^ 3 \<and>
              iteration (snd (before_test sv (hp, l))) \<noteq> 0) \<and>
           relative_error_flow (snd (before_test sv (hp, l)))
             = \<bar>1 - flow_old_norm_sqr sv / flow_new_norm_sqr sv\<bar> \<and>
           (\<not> transient_transport hp \<longrightarrow> relative_error_transport l = 0 \<longrightarrow>
              relative_error_transport (snd (before_test sv (hp, l))) = 0 \<and>
              relative_error_transport l' = 0) \<and>
           (\<forall>fuel sol hp1 l1. \<not> transient_transport hp \<longrightarrow>
              picard_loop fuel sol 0 (hp, initial_locals) = Some (Inr (hp1, l1)) \<longrightarrow>
              relative_error_transport l1 = 0) \<and>
           (\<forall>fuel sol k hp1 l1.
              picard_loop fuel sol k (hp, l) = Some (Inr (hp1, l1)) \<longrightarrow>
              \<not> remain_in_loop l1 \<and> relative_error_flow l1 < 1 / 10 ^ 8 \<and>
              relative_error_transport l1 \<le> 1 / 10 ^ 3 \<and> iteration l1 \<noteq> 1) \<and>
           (transient_transport hp \<longrightarrow> iteration l = 40 \<longrightarrow>
              stall_recovery (hp, l) =
                (hp\<lparr>time_step := time_step hp / 2\<rparr>,
                 l\<lparr>relative_error_flow := 1000, relative_error_transport := 0,
                   iteration := 0\<rparr>) \<and>
              remain_in_loop l' \<and> iteration l' = 1)"
proof -
  let ?s = "stall_recovery (hp, l)"
  let ?b = "snd (before_test sv (hp, l))"
  let ?l' = "update_iteration (convergence_test (fst ?s) ?b)"
  have tt: "\<not> test_transport (fst ?s)"
    using assms(1) by (simp add: stall_recovery_fst)
  have p: "picard_pass (Inr sv) (hp, l) = Inr (fst ?s, ?l')"
    by (rule picard_pass_Inr)
  have a: "\<not> remain_in_loop ?l' \<longleftrightarrow>
              relative_error_flow ?b < 1 / 10 ^ 8 \<and>
              relative_error_transport ?b \<le> 1 / 10 ^ 3 \<and> iteration ?b \<noteq> 0"
    using assms(2)
    by (simp only: update_iteration_sel convergence_test_remain [OF tt] before_test_remain)
       blast
  have b: "relative_error_flow ?b = \<bar>1 - flow_old_norm_sqr sv / flow_new_norm_sqr sv\<bar>"
    using assms(1) by (rule before_test_flow_error)
  have c: "relative_error_transport ?b = 0 \<and> relative_error_transport ?l' = 0"
    if "\<not> transient_transport hp" "relative_error_transport l = 0"
    using that assms(1)
    by (simp add: update_iteration_sel convergence_test_sel before_test_transport_error_inactive)
  have e: "relative_error_transport l1 = 0"
    if "\<not> transient_transport hp"
       "picard_loop fuel sol 0 (hp, initial_locals) = Some (Inr (hp1, l1))"
    for fuel sol hp1 l1
    using picard_loop_inactive [OF that(2) assms(1) that(1)] by (simp add: initial_locals_def)
  have d: "?s = (hp\<lparr>time_step := time_step hp / 2\<rparr>,
                 l\<lparr>relative_error_flow := 1000, relative_error_transport := 0,
                   iteration := 0\<rparr>) \<and> remain_in_loop ?l' \<and> iteration ?l' = 1"
    if "transient_transport hp" "iteration l = 40"
  proof -
    have s: "?s = (hp\<lparr>time_step := time_step hp / 2\<rparr>,
                 l\<lparr>relative_error_flow := 1000, relative_error_transport := 0,
                   iteration := 0\<rparr>)"
      using that by (simp add: stall_recovery_def)
    have i: "iteration ?b = 0"
      by (simp add: before_test_iteration s)
    then have "remain_in_loop ?l'" using a by blast
    moreover have "iteration ?l' = 1"
      using i by (simp add: update_iteration_sel convergence_test_sel)
    ultimately show ?thesis using s by blast
  qed
  have x: "\<not> remain_in_loop l1 \<and> relative_error_flow l1 < 1 / 10 ^ 8 \<and>
           relative_error_transport l1 \<le> 1 / 10 ^ 3 \<and> iteration l1 \<noteq> 1"
    if "picard_loop fuel sol k (hp, l) = Some (Inr (hp1, l1))" for fuel sol k hp1 l1
    using that assms by (rule picard_loop_exit)
  show ?thesis
    using p a b c d e x by blast
qed

theorem picard_exit_and_stall_recovery_witness:
  "\<not> test_transport (example_state True False False False) \<and>
   remain_in_loop initial_locals \<and>
   \<not> transient_transport (example_state True False False False) \<and>
   relative_error_transport initial_locals = 0 \<and>
   (\<exists>l'. picard_pass (Inr example_solves) (example_state True False False False, initial_locals)
           = Inr (example_state True False False False, l') \<and>
         remain_in_loop l' \<and> relative_error_transport l' = 0) \<and>
   (\<exists>l1. picard_loop 2 (\<lambda>k. Inr example_solves) 0
            (example_state True False False False, initial_locals)
           = Some (Inr (example_state True False False False, l1)) \<and>
         relative_error_transport l1 = 0 \<and> \<not> remain_in_loop l1 \<and>
         relative_error_flow l1 < 1 / 10 ^ 8 \<and> iteration l1 \<noteq> 1) \<and>
   \<not> test_transport (example_state False False True False) \<and>
   transient_transport (example_state False False True False) \<and>
   iteration (initial_locals\<lparr>iteration := 40\<rparr>) = 40 \<and>
   (\<exists>l'. picard_pass (Inr example_solves)
            (example_state False False True False, initial_locals\<lparr>iteration := 40\<rparr>)
           = Inr ((example_state False False True False)\<lparr>time_step := 1 / 2\<rparr>, l') \<and>
         remain_in_loop l' \<and> iteration l' = 1)"
proof -
  let ?A = "example_state True False False False"
  let ?B = "example_state False False True False"
  let ?L = "initial_locals\<lparr>iteration := 40\<rparr>"
  have hA: "\<not> test_transport ?A" "remain_in_loop initial_locals" "\<not> transient_transport ?A"
           "relative_error_transport initial_locals = 0"
    by (simp_all add: example_state_def initial_locals_def)
  have hB: "\<not> test_transport ?B" "remain_in_loop ?L" "transient_transport ?B"
           "iteration ?L = 40"
    by (simp_all add: example_state_def initial_locals_def)
  have sA: "fst (stall_recovery (?A, initial_locals)) = ?A"
    by (simp add: stall_recovery_fst hA)
  have iA: "iteration (snd (before_test example_solves (?A, initial_locals))) = 0"
    by (simp add: before_test_iteration stall_recovery_snd hA) (simp add: initial_locals_def)
  have loop: "\<exists>l1. picard_loop 2 (\<lambda>k. Inr example_solves) 0 (?A, initial_locals)
                  = Some (Inr (?A, l1))"
    by (simp add: numeral_2_eq_2 picard_pass_def before_test_def stall_recovery_def
          solve_flow_block_def solve_transport_block_def convergence_test_def
          update_iteration_def solve_flow_def initial_locals_def example_solves_def
          example_state_def)
  from picard_exit_and_stall_recovery [OF hA(1,2), of example_solves]
  obtain l' where A:
    "picard_pass (Inr example_solves) (?A, initial_locals) = Inr (?A, l')"
    "remain_in_loop l'" "relative_error_transport l' = 0"
    "\<forall>fuel sol hp1 l1. picard_loop fuel sol 0 (?A, initial_locals) = Some (Inr (hp1, l1))
        \<longrightarrow> relative_error_transport l1 = 0"
    "\<forall>fuel sol k hp1 l1.
        picard_loop fuel sol k (?A, initial_locals) = Some (Inr (hp1, l1)) \<longrightarrow>
        \<not> remain_in_loop l1 \<and> relative_error_flow l1 < 1 / 10 ^ 8 \<and>
        relative_error_transport l1 \<le> 1 / 10 ^ 3 \<and> iteration l1 \<noteq> 1"
    using hA(3,4) sA iA by auto
  from picard_exit_and_stall_recovery [OF hB(1,2), of example_solves]
  obtain l'' where B:
    "picard_pass (Inr example_solves) (?B, ?L) = Inr (?B\<lparr>time_step := time_step ?B / 2\<rparr>, l'')"
    "remain_in_loop l''" "iteration l'' = 1"
    using hB(3,4) by auto
  have ts: "time_step ?B / 2 = 1 / 2" by (simp add: example_state_def)
  from loop A(4,5) have
    "\<exists>l1. picard_loop 2 (\<lambda>k. Inr example_solves) 0 (?A, initial_locals) = Some (Inr (?A, l1))
          \<and> relative_error_transport l1 = 0 \<and> \<not> remain_in_loop l1 \<and>
          relative_error_flow l1 < 1 / 10 ^ 8 \<and> iteration l1 \<noteq> 1"
    by blast
  with hA hB A(1,2,3) B [unfolded ts] show ?thesis by blast
qed

section \<open>Properties of the commit of a time step\<close>

lemma exactly_one_phase_iff:
  "exactly_one_phase hp \<longleftrightarrow>
     phase_flags hp \<in> {(True, False, False), (False, True, False), (False, False, True)}"
  by (cases "transient_drying hp"; cases "transient_saturation hp";
      cases "transient_transport hp"; simp add: exactly_one_phase_def phase_flags_def)

lemma exactly_one_phase_bool:
  "exactly_one_phase hp \<longleftrightarrow>
     (transient_drying hp \<and> \<not> transient_saturation hp \<and> \<not> transient_transport hp) \<or>
     (\<not> transient_drying hp \<and> transient_saturation hp \<and> \<not> transient_transport hp) \<or>
     (\<not> transient_drying hp \<and> \<not> transient_saturation hp \<and> transient_transport hp)"
  by (cases "transient_drying hp"; cases "transient_saturation hp";
      cases "transient_transport hp"; simp add: exactly_one_phase_def)

lemma phase_rank_flags:
  "phase_rank hp = (case phase_flags hp of (d, s, t) \<Rightarrow> if d then 0 else if s then 1 else 2)"
  by (simp add: phase_rank_def phase_flags_def)

lemma phase_flags_cong:
  "phase_flags a = phase_flags b \<Longrightarrow> exactly_one_phase a = exactly_one_phase b"
  "phase_flags a = phase_flags b \<Longrightarrow> phase_rank a = phase_rank b"
  by (simp_all add: exactly_one_phase_iff phase_rank_flags)

subsection \<open>The step-size update\<close>

lemma adapt_time_step_flags:
  "phase_flags (adapt_time_step n hp) = phase_flags hp"
  "test_transport (adapt_time_step n hp) = test_transport hp"
  by (simp_all add: adapt_time_step_def phase_flags_def)

lemma clamp_time_step_flags:
  "phase_flags (clamp_time_step hp) = phase_flags hp"
  "test_transport (clamp_time_step hp) = test_transport hp"
  by (simp_all add: clamp_time_step_def phase_flags_def Let_def)

lemma update_timestep_flags:
  "phase_flags (update_timestep n hp) = phase_flags hp"
  "test_transport (update_timestep n hp) = test_transport hp"
  by (simp_all add: update_timestep_def adapt_time_step_flags clamp_time_step_flags)

lemma update_timestep_keeps:
  "time (update_timestep n hp) = time hp"
  "milestone_time (update_timestep n hp) = milestone_time hp"
  "time_for_dry_conditions (update_timestep n hp) = time_for_dry_conditions hp"
  by (simp_all add: update_timestep_def clamp_time_step_def adapt_time_step_def Let_def)

lemma clamp_time_step_bounds:
  "1 \<le> time_step (clamp_time_step hp)"
  "transient_drying hp \<or> transient_saturation hp \<Longrightarrow> time_step (clamp_time_step hp) \<le> 1"
  "transient_transport hp \<Longrightarrow> time_step (clamp_time_step hp) \<le> 60"
  by (auto simp: clamp_time_step_def Let_def)

lemma clamp_time_step_value:
  "time_step (clamp_time_step hp) =
     (if transient_drying hp \<or> transient_saturation hp then 1
      else if transient_transport hp then min 60 (max 1 (time_step hp))
      else max 1 (time_step hp))"
  by (auto simp: clamp_time_step_def Let_def)

lemma clamp_time_step_one:
  "time_step hp = 1 \<Longrightarrow> time_step (clamp_time_step hp) = 1"
  by (simp add: clamp_time_step_def Let_def)

lemma adapt_time_step_value:
  "time_step (adapt_time_step n hp) =
     (if redefine_time_step hp then 1 else if n < 15 then time_step hp * 2 else time_step hp)"
  by (simp add: adapt_time_step_def)

subsection \<open>The stages before it\<close>

lemma advance_time_sel:
  "phase_flags (advance_time hp) = phase_flags hp"
  "test_transport (advance_time hp) = test_transport hp"
  "coupled_transport (advance_time hp) = coupled_transport hp"
  "redefine_time_step (advance_time hp) = redefine_time_step hp"
  "time (advance_time hp) = time hp + time_step hp"
  "time_step (advance_time hp) = time_step hp"
  by (simp_all add: advance_time_def phase_flags_def)

lemma drying_condition_iff:
  "drying_condition P env \<longleftrightarrow>
     \<bar>1 - pressure_at_top env / (richards_bottom_fixed_value P - domain_size P)\<bar> < 31 / 10 ^ 5"
  by (simp add: drying_condition_def Let_def)

lemma drying_stage_fires:
  "transient_drying hp \<Longrightarrow> drying_condition P env \<Longrightarrow>
   drying_stage P env hp =
     hp\<lparr>figure_count := 0, transient_drying := False, transient_saturation := True,
        redefine_time_step := True, time_for_dry_conditions := time hp,
        milestone_time := time hp\<rparr>"
  by (simp add: drying_stage_def)

lemma drying_stage_idle:
  "\<not> (transient_drying hp \<and> drying_condition P env) \<Longrightarrow> drying_stage P env hp = hp"
  by (auto simp: drying_stage_def)

lemma drying_stage_cases:
  "drying_stage P env hp = hp \<or>
   (transient_drying hp \<and> drying_condition P env \<and>
    drying_stage P env hp =
     hp\<lparr>figure_count := 0, transient_drying := False, transient_saturation := True,
        redefine_time_step := True, time_for_dry_conditions := time hp,
        milestone_time := time hp\<rparr>)"
  by (simp add: drying_stage_def)

lemma saturation_stage_fires:
  "transient_saturation hp \<Longrightarrow> coupled_transport hp \<Longrightarrow>
   fst (saturation_errors P env) < 2 / 10 ^ 2 \<or> snd (saturation_errors P env) < 3 / 10 ^ 6 \<Longrightarrow>
   saturation_stage P env hp =
     hp\<lparr>transient_saturation := False, transient_transport := True,
        redefine_time_step := True, figure_count := 0,
        time_for_saturated_conditions := time hp - milestone_time hp,
        milestone_time := time hp\<rparr>"
  by (simp add: saturation_stage_def Let_def)

lemma saturation_stage_cases:
  "saturation_stage P env hp = hp \<or>
   (transient_saturation hp \<and> coupled_transport hp \<and>
    saturation_stage P env hp =
     hp\<lparr>transient_saturation := False, transient_transport := True,
        redefine_time_step := True, figure_count := 0,
        time_for_saturated_conditions := time hp - milestone_time hp,
        milestone_time := time hp\<rparr>)"
  by (simp add: saturation_stage_def Let_def)

lemma output_stage_sel:
  "phase_flags (output_stage P hp) = phase_flags hp"
  "test_transport (output_stage P hp) = test_transport hp"
  "redefine_time_step (output_stage P hp) = redefine_time_step hp"
  "time (output_stage P hp) = time hp"
  "time_step (output_stage P hp) = time_step hp"
  "milestone_time (output_stage P hp) = milestone_time hp"
  "time_for_dry_conditions (output_stage P hp) = time_for_dry_conditions hp"
  by (simp_all add: output_stage_def phase_flags_def Let_def)

lemma choose_period_test: "test_transport (choose_period P env hp) = test_transport hp"
  using drying_stage_cases [of P env hp]
        saturation_stage_cases [of P env "drying_stage P env hp"]
  by (auto simp: choose_period_def)

lemma choose_period_changed:
  "phase_flags (choose_period P env hp) \<noteq> phase_flags hp \<Longrightarrow>
   redefine_time_step (choose_period P env hp)"
  using drying_stage_cases [of P env hp]
        saturation_stage_cases [of P env "drying_stage P env hp"]
  by (auto simp: choose_period_def phase_flags_def split: if_splits)

lemma choose_period_unchanged:
  "phase_flags (choose_period P env hp) = phase_flags hp \<Longrightarrow> choose_period P env hp = hp"
  using drying_stage_cases [of P env hp]
        saturation_stage_cases [of P env "drying_stage P env hp"]
  by (auto simp: choose_period_def phase_flags_def split: if_splits)

lemma choose_period_drying_fires:
  assumes "\<not> test_transport hp" and "transient_drying hp" and "drying_condition P env"
  shows "figure_count (choose_period P env hp) = 0"
    and "time_for_dry_conditions (choose_period P env hp) = time hp"
    and "milestone_time (choose_period P env hp) = time hp"
    and "\<not> transient_drying (choose_period P env hp)"
    and "redefine_time_step (choose_period P env hp)"
    and "time (choose_period P env hp) = time hp"
proof -
  let ?d = "drying_stage P env hp"
  have d: "?d = hp\<lparr>figure_count := 0, transient_drying := False, transient_saturation := True,
        redefine_time_step := True, time_for_dry_conditions := time hp,
        milestone_time := time hp\<rparr>"
    using assms(2,3) by (rule drying_stage_fires)
  have c: "choose_period P env hp = saturation_stage P env ?d"
    using assms(1) by (simp add: choose_period_def)
  from saturation_stage_cases [of P env ?d]
  show "figure_count (choose_period P env hp) = 0"
    and "time_for_dry_conditions (choose_period P env hp) = time hp"
    and "milestone_time (choose_period P env hp) = time hp"
    and "\<not> transient_drying (choose_period P env hp)"
    and "redefine_time_step (choose_period P env hp)"
    and "time (choose_period P env hp) = time hp"
    unfolding c by (auto simp: d)
qed

lemma choose_period_drying_idle:
  assumes "\<not> test_transport hp" and "transient_drying hp" and "\<not> drying_condition P env"
  shows "transient_drying (choose_period P env hp)"
proof -
  have d: "drying_stage P env hp = hp"
    using assms(3) by (simp add: drying_stage_idle)
  from saturation_stage_cases [of P env hp] show ?thesis
    using assms(1,2) by (auto simp: choose_period_def d)
qed

lemma commit_flags:
  "phase_flags (commit P env n hp) = phase_flags (choose_period P env (advance_time hp))"
  by (simp add: commit_def update_timestep_flags output_stage_sel)

lemma commit_sel:
  "transient_drying (commit P env n hp) = transient_drying (choose_period P env (advance_time hp))"
  "transient_saturation (commit P env n hp)
     = transient_saturation (choose_period P env (advance_time hp))"
  "transient_transport (commit P env n hp)
     = transient_transport (choose_period P env (advance_time hp))"
  using commit_flags [of P env n hp] by (simp_all add: phase_flags_def)

lemma commit_redefined:
  assumes "\<not> test_transport hp"
      and "redefine_time_step (choose_period P env (advance_time hp))"
  shows "time_step (commit P env n hp) = 1"
proof -
  let ?o = "output_stage P (choose_period P env (advance_time hp))"
  have t: "\<not> test_transport ?o"
    using assms(1) by (simp add: output_stage_sel choose_period_test advance_time_sel)
  have r: "redefine_time_step ?o" using assms(2) by (simp add: output_stage_sel)
  have "time_step (commit P env n hp) = time_step (clamp_time_step (adapt_time_step n ?o))"
    using t by (simp add: commit_def update_timestep_def)
  also have "\<dots> = 1"
    using r by (simp add: clamp_time_step_one adapt_time_step_value)
  finally show ?thesis .
qed

lemma update_timestep_clears:
  "\<not> test_transport hp \<Longrightarrow> \<not> redefine_time_step (update_timestep n hp)"
  by (simp add: update_timestep_def clamp_time_step_def adapt_time_step_def Let_def)

lemma commit_clears:
  assumes "\<not> test_transport hp"
  shows "\<not> redefine_time_step (commit P env n hp)"
proof -
  have "\<not> test_transport (output_stage P (choose_period P env (advance_time hp)))"
    using assms by (simp add: output_stage_sel choose_period_test advance_time_sel)
  then show ?thesis
    unfolding commit_def by (rule update_timestep_clears)
qed

lemma commit_unchanged:
  assumes "\<not> test_transport hp"
      and "phase_flags (commit P env n hp) = phase_flags hp"
  shows "time_step (commit P env n hp)
           = time_step (update_timestep n (hp\<lparr>time := time hp + time_step hp\<rparr>))"
proof -
  from assms(2) have "phase_flags (choose_period P env (advance_time hp))
                        = phase_flags (advance_time hp)"
    by (simp add: commit_flags advance_time_sel)
  then have c: "choose_period P env (advance_time hp) = advance_time hp"
    by (rule choose_period_unchanged)
  let ?o = "output_stage P (advance_time hp)"
  have o: "test_transport ?o = test_transport (advance_time hp)"
          "redefine_time_step ?o = redefine_time_step (advance_time hp)"
          "time_step ?o = time_step (advance_time hp)"
          "phase_flags ?o = phase_flags (advance_time hp)"
    by (simp_all add: output_stage_sel)
  have "time_step (update_timestep n ?o) = time_step (update_timestep n (advance_time hp))"
    using o
    by (simp add: update_timestep_def clamp_time_step_value adapt_time_step_value
          adapt_time_step_flags phase_flags_def adapt_time_step_def)
  then show ?thesis
    unfolding commit_def c by (simp add: advance_time_def)
qed

text \<open>
  C2. With the transport test mode disabled, the update of the step size at the end of a
  time step (\<open>n\<close> is the number of passes the Picard loop made) is the adaptation
  followed by the clamping. If a phase transition occurred during the step (the
  transitions raise \<open>redefine_time_step\<close>; the phase flags after the commit differ
  from those before), the step size is set to its minimum 1. If none occurred, the step
  size after the commit is the one the update computes from the state the Picard loop
  left. In both cases the commit leaves \<open>redefine_time_step\<close> clear for the next
  step, as the constructor does for the first. When that flag is clear and the loop
  made fewer than 15 passes, the adaptation doubles the step size, and the clamping
  turns the doubled value into 1 while drying or saturating and into the nearest value
  between 1 and 60 while transporting. After the update the step size is at least 1, at
  most 1 while the drying or the saturation flag is set, and at most 60 while the
  transport flag is set.
\<close>

theorem step_size_update:
  assumes "\<not> test_transport hp"
  shows "update_timestep n hp = clamp_time_step (adapt_time_step n hp) \<and>
         (redefine_time_step hp \<longrightarrow>
            time_step (adapt_time_step n hp) = 1 \<and> time_step (update_timestep n hp) = 1) \<and>
         (phase_flags (commit P env n hp) \<noteq> phase_flags hp \<longrightarrow>
            time_step (commit P env n hp) = 1) \<and>
         (phase_flags (commit P env n hp) = phase_flags hp \<longrightarrow>
            time_step (commit P env n hp)
              = time_step (update_timestep n (hp\<lparr>time := time hp + time_step hp\<rparr>))) \<and>
         \<not> redefine_time_step (commit P env n hp) \<and>
         (\<not> redefine_time_step hp \<longrightarrow> n < 15 \<longrightarrow>
            time_step (adapt_time_step n hp) = 2 * time_step hp \<and>
            time_step (update_timestep n hp) =
              (if transient_drying hp \<or> transient_saturation hp then 1
               else if transient_transport hp then min 60 (max 1 (2 * time_step hp))
               else max 1 (2 * time_step hp))) \<and>
         1 \<le> time_step (update_timestep n hp) \<and>
         (transient_drying (update_timestep n hp) \<or> transient_saturation (update_timestep n hp)
            \<longrightarrow> time_step (update_timestep n hp) \<le> 1) \<and>
         (transient_transport (update_timestep n hp) \<longrightarrow> time_step (update_timestep n hp) \<le> 60)"
proof -
  let ?a = "adapt_time_step n hp"
  have u: "update_timestep n hp = clamp_time_step ?a"
    using assms by (simp add: update_timestep_def)
  have f: "phase_flags (clamp_time_step ?a) = phase_flags ?a"
    by (rule clamp_time_step_flags)
  have fa: "transient_drying ?a = transient_drying hp"
           "transient_saturation ?a = transient_saturation hp"
           "transient_transport ?a = transient_transport hp"
    using adapt_time_step_flags(1) [of n hp] by (simp_all add: phase_flags_def)
  have r: "time_step ?a = 1 \<and> time_step (clamp_time_step ?a) = 1" if "redefine_time_step hp"
    using that by (simp add: adapt_time_step_value clamp_time_step_one)
  have c: "time_step (commit P env n hp) = 1"
    if "phase_flags (commit P env n hp) \<noteq> phase_flags hp"
  proof -
    from that have "phase_flags (choose_period P env (advance_time hp))
                      \<noteq> phase_flags (advance_time hp)"
      by (simp add: commit_flags advance_time_sel)
    then have "redefine_time_step (choose_period P env (advance_time hp))"
      by (rule choose_period_changed)
    with assms show ?thesis by (rule commit_redefined)
  qed
  have d: "time_step ?a = 2 * time_step hp \<and>
           time_step (clamp_time_step ?a) =
              (if transient_drying hp \<or> transient_saturation hp then 1
               else if transient_transport hp then min 60 (max 1 (2 * time_step hp))
               else max 1 (2 * time_step hp))"
    if "\<not> redefine_time_step hp" "n < 15"
  proof -
    have "time_step ?a = 2 * time_step hp"
      using that by (simp add: adapt_time_step_value)
    then show ?thesis
      by (simp only: clamp_time_step_value [of ?a] fa)
  qed
  have b1: "1 \<le> time_step (clamp_time_step ?a)"
    by (rule clamp_time_step_bounds)
  have b2: "time_step (clamp_time_step ?a) \<le> 1"
    if "transient_drying (clamp_time_step ?a) \<or> transient_saturation (clamp_time_step ?a)"
    using that f by (intro clamp_time_step_bounds) (auto simp: phase_flags_def)
  have b3: "time_step (clamp_time_step ?a) \<le> 60" if "transient_transport (clamp_time_step ?a)"
    using that f by (intro clamp_time_step_bounds) (auto simp: phase_flags_def)
  have k: "time_step (commit P env n hp)
              = time_step (update_timestep n (hp\<lparr>time := time hp + time_step hp\<rparr>))"
    if "phase_flags (commit P env n hp) = phase_flags hp"
    using assms that by (rule commit_unchanged)
  have z: "\<not> redefine_time_step (commit P env n hp)"
    using assms by (rule commit_clears)
  show ?thesis
    unfolding u using r c k z d b1 b2 b3 by blast
qed

theorem step_size_update_witness:
  "\<not> test_transport (example_state False False True False) \<and>
   \<not> redefine_time_step (example_state False False True False) \<and>
   (3 :: 32 word) < 15 \<and>
   time_step (update_timestep 3 (example_state False False True False)) = 2 \<and>
   transient_transport (update_timestep 3 (example_state False False True False)) \<and>
   time_step (update_timestep 3 (example_state False False True False)) \<le> 60 \<and>
   redefine_time_step ((example_state True False False False)\<lparr>redefine_time_step := True\<rparr>) \<and>
   time_step (update_timestep 3
      ((example_state True False False False)\<lparr>time_step := 1 / 4, redefine_time_step := True\<rparr>))
     = 1 \<and>
   phase_flags (commit (example_parameters ''default'' False) example_env 3
                  (example_state True False False False))
     \<noteq> phase_flags (example_state True False False False) \<and>
   time_step (commit (example_parameters ''default'' False) example_env 3
                (example_state True False False False)) = 1"
proof -
  let ?T = "example_state False False True False"
  let ?D = "example_state True False False False"
  let ?R = "?D\<lparr>time_step := 1 / 4, redefine_time_step := True\<rparr>"
  let ?P = "example_parameters ''default'' False"
  have hT: "\<not> test_transport ?T" "\<not> redefine_time_step ?T" "transient_transport ?T"
           "\<not> transient_drying ?T" "\<not> transient_saturation ?T" "time_step ?T = 1"
    by (simp_all add: example_state_def)
  have hR: "\<not> test_transport ?R" "redefine_time_step ?R"
    by (simp_all add: example_state_def)
  have hD: "\<not> test_transport ?D" by (simp add: example_state_def)
  have w: "(3 :: 32 word) < 15" by simp
  have fl: "phase_flags (commit ?P example_env 3 ?D) \<noteq> phase_flags ?D"
    by (simp add: phase_flags_def commit_sel choose_period_def advance_time_def
          drying_stage_def drying_condition_def saturation_stage_def saturation_errors_def
          example_state_def example_parameters_def example_env_def Let_def)
  have fT: "transient_transport (update_timestep 3 ?T)"
    using update_timestep_flags(1) [of 3 ?T] hT(3) by (simp add: phase_flags_def)
  note sT = step_size_update [OF hT(1), of 3 ?P example_env]
  from sT hT(2) w have
    "time_step (update_timestep 3 ?T) =
       (if transient_drying ?T \<or> transient_saturation ?T then 1
        else if transient_transport ?T then min 60 (max 1 (2 * time_step ?T))
        else max 1 (2 * time_step ?T))"
    by blast
  then have T: "time_step (update_timestep 3 ?T) = 2"
    by (simp add: hT)
  from sT fT have T60: "time_step (update_timestep 3 ?T) \<le> 60"
    by blast
  from step_size_update [OF hR(1), of 3 ?P example_env] hR(2)
  have R: "time_step (update_timestep 3 ?R) = 1" by blast
  from step_size_update [OF hD, of 3 ?P example_env] fl
  have D: "time_step (commit ?P example_env 3 ?D) = 1" by blast
  have rD: "redefine_time_step (?D\<lparr>redefine_time_step := True\<rparr>)" by simp
  from hT(1,2) w T fT T60 rD R fl D show ?thesis by blast
qed

subsection \<open>The phase flags along a run\<close>

lemma drying_stage_phase:
  "exactly_one_phase hp \<Longrightarrow>
     exactly_one_phase (drying_stage P env hp) \<and>
     phase_rank hp \<le> phase_rank (drying_stage P env hp)"
  using drying_stage_cases [of P env hp]
  by (auto simp: exactly_one_phase_bool phase_rank_def)

lemma saturation_stage_phase:
  "exactly_one_phase hp \<Longrightarrow>
     exactly_one_phase (saturation_stage P env hp) \<and>
     phase_rank hp \<le> phase_rank (saturation_stage P env hp)"
  using saturation_stage_cases [of P env hp]
  by (auto simp: exactly_one_phase_bool phase_rank_def)

lemma choose_period_phase:
  "exactly_one_phase hp \<Longrightarrow>
     exactly_one_phase (choose_period P env hp) \<and>
     phase_rank hp \<le> phase_rank (choose_period P env hp)"
  using drying_stage_phase [of hp P env]
        saturation_stage_phase [of "drying_stage P env hp" P env]
  by (auto simp: choose_period_def)

lemma commit_phase:
  assumes "exactly_one_phase hp"
  shows "exactly_one_phase (commit P env n hp) \<and> phase_rank hp \<le> phase_rank (commit P env n hp)"
proof -
  have a: "exactly_one_phase (advance_time hp)" "phase_rank (advance_time hp) = phase_rank hp"
    using assms phase_flags_cong [OF advance_time_sel(1) [of hp]] by simp_all
  from choose_period_phase [OF a(1), of P env] a(2)
  show ?thesis
    using phase_flags_cong [OF commit_flags [of P env n hp]] by simp
qed

lemma stall_recovery_flags:
  "phase_flags (fst (stall_recovery s)) = phase_flags (fst s)"
  by (cases s) (simp add: stall_recovery_def phase_flags_def)

lemma picard_pass_flags:
  assumes "picard_pass delivered s = Inr s'"
  shows "phase_flags (fst s') = phase_flags (fst s)"
proof (cases delivered)
  case (Inl e)
  with assms show ?thesis by (simp add: picard_pass_def)
next
  case (Inr sv)
  with assms have "fst s' = fst (stall_recovery s)"
    by (auto simp: picard_pass_Inr)
  then show ?thesis by (simp add: stall_recovery_flags)
qed

lemma picard_loop_flags:
  "picard_loop fuel sol k s = Some (Inr s') \<Longrightarrow> phase_flags (fst s') = phase_flags (fst s)"
proof (induction fuel arbitrary: k s)
  case 0
  then show ?case by simp
next
  case (Suc fuel)
  show ?case
  proof (cases "picard_pass (sol k) s")
    case (Inl e)
    with Suc.prems show ?thesis by simp
  next
    case (Inr s1)
    note f = picard_pass_flags [OF Inr]
    show ?thesis
    proof (cases "remain_in_loop (snd s1)")
      case True
      with Suc.prems Inr have "picard_loop fuel sol (Suc k) s1 = Some (Inr s')" by simp
      from Suc.IH [OF this] f show ?thesis by simp
    next
      case False
      with Suc.prems Inr have "s' = s1" by simp
      with f show ?thesis by simp
    qed
  qed
qed

lemma time_step_body_phase:
  assumes "time_step_body fuel P env hp = Some (Inr hp')" and "exactly_one_phase hp"
  shows "exactly_one_phase hp' \<and> phase_rank hp \<le> phase_rank hp'"
proof -
  from assms(1) obtain h l where
    pl: "picard_loop fuel (solver env) 0 (hp, initial_locals) = Some (Inr (h, l))"
    and hp': "hp' = commit P env (step l) h"
    by (auto simp: time_step_body_def split: option.splits sum.splits prod.splits)
  have f: "phase_flags h = phase_flags hp"
    using picard_loop_flags [OF pl] by simp
  then have "exactly_one_phase h" "phase_rank h = phase_rank hp"
    using assms(2) phase_flags_cong [OF f] by simp_all
  with commit_phase [of h P env "step l"] hp' show ?thesis by simp
qed

lemma run_steps_phase:
  "run_steps fuel P envs ns hp = Some (Inr hp') \<Longrightarrow> exactly_one_phase hp \<Longrightarrow>
   exactly_one_phase hp' \<and> phase_rank hp \<le> phase_rank hp'"
proof (induction ns arbitrary: hp)
  case Nil
  then show ?case by simp
next
  case (Cons n ns)
  let ?h = "hp\<lparr>timestep_number := of_nat n\<rparr>"
  from Cons.prems(1) obtain h1 where
    b: "time_step_body fuel P (envs n) ?h = Some (Inr h1)"
    and r: "run_steps fuel P envs ns h1 = Some (Inr hp')"
    by (auto split: option.splits sum.splits)
  have e: "exactly_one_phase ?h" "phase_rank ?h = phase_rank hp"
    using Cons.prems(2) by (simp_all add: exactly_one_phase_def phase_rank_def)
  from time_step_body_phase [OF b e(1)] e(2)
  have h1: "exactly_one_phase h1" "phase_rank hp \<le> phase_rank h1" by simp_all
  from Cons.IH [OF r h1(1)] h1(2) show ?case by simp
qed

lemma Heat_Pipe_ctor_phase:
  "Heat_Pipe_ctor P = Inr hp \<Longrightarrow> exactly_one_phase hp"
  by (auto simp: Heat_Pipe_ctor_def exactly_one_phase_def Let_def split: if_splits)

text \<open>
  C3. Take any state \<open>hp0\<close> the constructor builds (for one of the valid initial
  states), any state \<open>hp\<close> reached from it by committing any number of time steps, and
  any state \<open>hp'\<close> reached from \<open>hp\<close> by committing further time steps. In each of
  them exactly one of the three flags drying, saturation, transport is set, and the
  phase never moves backwards along drying, saturation, transport: its rank (0, 1, 2)
  does not decrease from \<open>hp0\<close> to \<open>hp\<close> nor from \<open>hp\<close> to \<open>hp'\<close>.
\<close>

theorem one_phase_moving_forward:
  assumes "Heat_Pipe_ctor P = Inr hp0"
      and "run_steps fuel P envs ns hp0 = Some (Inr hp)"
      and "run_steps fuel' P envs' ns' hp = Some (Inr hp')"
  shows "exactly_one_phase hp0 \<and> exactly_one_phase hp \<and> exactly_one_phase hp' \<and>
         phase_rank hp0 \<le> phase_rank hp \<and> phase_rank hp \<le> phase_rank hp'"
proof -
  have 0: "exactly_one_phase hp0" using assms(1) by (rule Heat_Pipe_ctor_phase)
  from run_steps_phase [OF assms(2) 0]
  have 1: "exactly_one_phase hp" "phase_rank hp0 \<le> phase_rank hp" by simp_all
  from run_steps_phase [OF assms(3) 1(1)] 0 1 show ?thesis by simp
qed

lemma example_first_step:
  "run_steps 2 (example_parameters ''default'' False) example_envs [1]
     (example_state True False False False) = Some (Inr after_first_step)"
  by (simp add: numeral_2_eq_2 time_step_body_def picard_pass_def before_test_def
        stall_recovery_def solve_flow_block_def solve_transport_block_def convergence_test_def
        update_iteration_def solve_flow_def initial_locals_def example_envs_def example_env_def
        example_solves_def example_parameters_def example_state_def commit_def advance_time_def
        choose_period_def drying_stage_def drying_condition_def saturation_stage_def
        saturation_errors_def output_stage_def update_timestep_def adapt_time_step_def
        clamp_time_step_def after_first_step_def Let_def)

lemma example_second_step:
  "run_steps 2 (example_parameters ''default'' False) example_envs [2] after_first_step
     = Some (Inr after_second_step)"
proof -
  let ?h = "after_first_step\<lparr>timestep_number := 2\<rparr>"
  let ?l1 = "\<lparr>relative_error_flow = 0, relative_error_transport = 100,
           old_norm_flow = 1, new_norm_flow = 1, old_norm_transport = 1,
           new_norm_transport = 1, iteration = 1, step = 1, remain_in_loop = True\<rparr>"
  let ?l2 = "\<lparr>relative_error_flow = 0, relative_error_transport = 0,
           old_norm_flow = 1, new_norm_flow = 1, old_norm_transport = 1,
           new_norm_transport = 1, iteration = 2, step = 2, remain_in_loop = False\<rparr>"
  have p0: "picard_pass (Inr example_solves) (?h, initial_locals) = Inr (?h, ?l1)"
    by (simp add: picard_pass_def before_test_def stall_recovery_def solve_flow_block_def
          solve_transport_block_def convergence_test_def update_iteration_def solve_flow_def
          initial_locals_def example_solves_def after_first_step_def)
  have p1: "picard_pass (Inr example_solves) (?h, ?l1) = Inr (?h, ?l2)"
    by (simp add: picard_pass_def before_test_def stall_recovery_def solve_flow_block_def
          solve_transport_block_def convergence_test_def update_iteration_def solve_flow_def
          example_solves_def after_first_step_def)
  have loop: "picard_loop 2 (solver example_env) 0 (?h, initial_locals) = Some (Inr (?h, ?l2))"
    by (simp add: numeral_2_eq_2 example_env_def p0 p1)
  have c: "commit (example_parameters ''default'' False) example_env 2 ?h = after_second_step"
    by (simp add: example_env_def example_parameters_def commit_def advance_time_def
          choose_period_def drying_stage_def saturation_stage_def output_stage_def
          update_timestep_def adapt_time_step_def clamp_time_step_def
          after_first_step_def after_second_step_def Let_def)
  have "time_step_body 2 (example_parameters ''default'' False) example_env ?h
          = Some (Inr after_second_step)"
    by (simp add: time_step_body_def loop c)
  then show ?thesis
    by (simp add: example_envs_def)
qed

theorem one_phase_moving_forward_witness:
  "Heat_Pipe_ctor (example_parameters ''default'' False)
     = Inr (example_state True False False False) \<and>
   run_steps 2 (example_parameters ''default'' False) example_envs [1]
     (example_state True False False False) = Some (Inr after_first_step) \<and>
   run_steps 2 (example_parameters ''default'' False) example_envs [2] after_first_step
     = Some (Inr after_second_step) \<and>
   exactly_one_phase (example_state True False False False) \<and>
   exactly_one_phase after_first_step \<and> exactly_one_phase after_second_step \<and>
   phase_rank (example_state True False False False) = 0 \<and>
   phase_rank after_first_step = 2 \<and> phase_rank after_second_step = 2 \<and>
   phase_rank (example_state True False False False) \<le> phase_rank after_first_step \<and>
   phase_rank after_first_step \<le> phase_rank after_second_step"
proof -
  have c: "Heat_Pipe_ctor (example_parameters ''default'' False)
             = Inr (example_state True False False False)"
    by (simp add: Heat_Pipe_ctor_def example_parameters_def example_state_def)
  note w = one_phase_moving_forward [OF c example_first_step example_second_step]
  have r: "phase_rank (example_state True False False False) = 0"
          "phase_rank after_first_step = 2" "phase_rank after_second_step = 2"
    by (simp_all add: phase_rank_def example_state_def after_first_step_def
          after_second_step_def)
  from c example_first_step example_second_step w r show ?thesis by blast
qed

subsection \<open>The two transitions\<close>

text \<open>
  C4, as amended. The phase block of \<^verbatim>\<open>run\<close> is executed only when the transport test
  mode is disabled. With the test mode disabled and the drying flag set when a time step
  is committed, the drying flag is cleared (and the saturation flag set) exactly when
  \<open>\<bar>1 - p / (b - s)\<bar> < 3.1e-4\<close>, for the pressure \<open>p\<close> at the top, the fixed bottom
  value \<open>b\<close> and the domain size \<open>s\<close>. On that transition the figure counter is 0
  when the phase block is left, the elapsed drying time and the milestone time are the
  simulation time just advanced, and the step size the next time step starts with is 1.
\<close>

theorem drying_to_saturation:
  assumes "\<not> test_transport hp" and "transient_drying hp"
  shows "(\<not> transient_drying (drying_stage P env (advance_time hp)) \<longleftrightarrow>
            \<bar>1 - pressure_at_top env / (richards_bottom_fixed_value P - domain_size P)\<bar>
              < 31 / 10 ^ 5) \<and>
         (\<not> transient_drying (commit P env n hp) \<longleftrightarrow>
            \<bar>1 - pressure_at_top env / (richards_bottom_fixed_value P - domain_size P)\<bar>
              < 31 / 10 ^ 5) \<and>
         (\<bar>1 - pressure_at_top env / (richards_bottom_fixed_value P - domain_size P)\<bar>
              < 31 / 10 ^ 5 \<longrightarrow>
            transient_saturation (drying_stage P env (advance_time hp)) \<and>
            figure_count (choose_period P env (advance_time hp)) = 0 \<and>
            time_for_dry_conditions (commit P env n hp) = time hp + time_step hp \<and>
            milestone_time (commit P env n hp) = time hp + time_step hp \<and>
            time (commit P env n hp) = time hp + time_step hp \<and>
            time_step (commit P env n hp) = 1)"
proof -
  let ?a = "advance_time hp"
  have a: "\<not> test_transport ?a" "transient_drying ?a"
    using assms by (simp_all add: advance_time_def)
  note iff = drying_condition_iff [of P env, symmetric]
  have 1: "\<not> transient_drying (drying_stage P env ?a) \<longleftrightarrow> drying_condition P env"
    using a(2) by (simp add: drying_stage_def)
  have 2: "\<not> transient_drying (commit P env n hp) \<longleftrightarrow> drying_condition P env"
    using choose_period_drying_fires(4) [OF a] choose_period_drying_idle [OF a]
    by (auto simp: commit_sel)
  have 3: "transient_saturation (drying_stage P env ?a) \<and>
            figure_count (choose_period P env ?a) = 0 \<and>
            time_for_dry_conditions (commit P env n hp) = time hp + time_step hp \<and>
            milestone_time (commit P env n hp) = time hp + time_step hp \<and>
            time (commit P env n hp) = time hp + time_step hp \<and>
            time_step (commit P env n hp) = 1" if c: "drying_condition P env"
  proof -
    note f = choose_period_drying_fires [OF a c]
    have "transient_saturation (drying_stage P env ?a)"
      using a(2) c by (simp add: drying_stage_def)
    moreover have "time_step (commit P env n hp) = 1"
      using assms(1) f(5) by (rule commit_redefined)
    ultimately show ?thesis
      using f by (simp add: commit_def update_timestep_keeps output_stage_sel advance_time_sel)
  qed
  show ?thesis
    unfolding iff using 1 2 3 by blast
qed

theorem drying_to_saturation_witness:
  "\<not> test_transport (example_state True False False False) \<and>
   transient_drying (example_state True False False False) \<and>
   \<bar>1 - pressure_at_top example_env
          / (richards_bottom_fixed_value (example_parameters ''default'' False)
             - domain_size (example_parameters ''default'' False))\<bar> < 31 / 10 ^ 5 \<and>
   \<not> transient_drying (commit (example_parameters ''default'' False) example_env 2
                        (example_state True False False False)) \<and>
   time_for_dry_conditions (commit (example_parameters ''default'' False) example_env 2
                              (example_state True False False False)) = 1 \<and>
   milestone_time (commit (example_parameters ''default'' False) example_env 2
                     (example_state True False False False)) = 1 \<and>
   time_step (commit (example_parameters ''default'' False) example_env 2
                (example_state True False False False)) = 1"
proof -
  let ?D = "example_state True False False False"
  let ?P = "example_parameters ''default'' False"
  have h: "\<not> test_transport ?D" "transient_drying ?D" "time ?D + time_step ?D = 1"
    by (simp_all add: example_state_def)
  have c: "\<bar>1 - pressure_at_top example_env
               / (richards_bottom_fixed_value ?P - domain_size ?P)\<bar> < 31 / 10 ^ 5"
    by (simp add: example_env_def example_parameters_def)
  from drying_to_saturation [OF h(1,2), of ?P example_env 2] c h(3)
  show ?thesis using h(1,2) by simp
qed

text \<open>
  C4 as stated fails in the transport test mode: the constructor sets the drying flag for
  the initial state \<^verbatim>\<open>default\<close>, the pressure ratio is exactly 1, and the commit of
  the time step leaves the drying flag set and the saturation flag clear.
\<close>

theorem drying_to_saturation_test_mode_counterexample:
  "Heat_Pipe_ctor (example_parameters ''default'' True)
     = Inr (example_state True False False True) \<and>
   transient_drying (example_state True False False True) \<and>
   \<bar>1 - pressure_at_top example_env
          / (richards_bottom_fixed_value (example_parameters ''default'' True)
             - domain_size (example_parameters ''default'' True))\<bar> < 31 / 10 ^ 5 \<and>
   transient_drying (commit (example_parameters ''default'' True) example_env 2
                      (example_state True False False True)) \<and>
   \<not> transient_saturation (commit (example_parameters ''default'' True) example_env 2
                            (example_state True False False True))"
  by (simp add: Heat_Pipe_ctor_def example_parameters_def example_state_def example_env_def
        commit_def advance_time_def choose_period_def output_stage_def update_timestep_def
        Let_def)

text \<open>
  C10, as amended. The phase block is executed only when the transport test mode is
  disabled. With the test mode disabled, coupled transport enabled and the top boundary
  condition of the flow not of the fixed-pressure kind, both saturation error measures
  are 0 whatever the water flows at the top and at the bottom. So the commit of a time
  step in which the saturation phase is active (the saturation flag is set when the step
  is committed, or the drying flag is and the drying transition fires in this commit)
  clears the saturation flag and sets the transport flag: the saturation phase does not
  outlast the first commit that finds it. The next time step starts with the step size 1.
\<close>

theorem saturation_to_transport_at_once:
  assumes "\<not> test_transport hp" and "coupled_transport hp"
      and "\<not> richards_fixed_at_top P"
      and "transient_saturation hp \<or>
           (transient_drying hp \<and>
            \<bar>1 - pressure_at_top env / (richards_bottom_fixed_value P - domain_size P)\<bar>
              < 31 / 10 ^ 5)"
  shows "saturation_errors P env = (0, 0) \<and>
         transient_transport (commit P env n hp) \<and>
         \<not> transient_saturation (commit P env n hp) \<and>
         time_step (commit P env n hp) = 1"
proof -
  let ?a = "advance_time hp"
  let ?d = "drying_stage P env ?a"
  have e: "saturation_errors P env = (0, 0)"
    using assms(3) by (simp add: saturation_errors_def)
  have a: "\<not> test_transport ?a" "coupled_transport ?a"
    using assms(1,2) by (simp_all add: advance_time_def)
  have d1: "transient_saturation ?d"
  proof (cases "transient_saturation hp")
    case True
    then have "transient_saturation ?a" by (simp add: advance_time_def)
    with drying_stage_cases [of P env ?a] show ?thesis by auto
  next
    case False
    with assms(4) have "transient_drying ?a" "drying_condition P env"
      by (simp_all add: advance_time_def drying_condition_iff)
    then show ?thesis by (simp add: drying_stage_fires)
  qed
  have d2: "coupled_transport ?d"
    using drying_stage_cases [of P env ?a] a(2) by auto
  have s: "saturation_stage P env ?d =
     ?d\<lparr>transient_saturation := False, transient_transport := True,
        redefine_time_step := True, figure_count := 0,
        time_for_saturated_conditions := time ?d - milestone_time ?d,
        milestone_time := time ?d\<rparr>"
    using d1 d2 by (rule saturation_stage_fires) (simp add: e)
  have c: "choose_period P env ?a = saturation_stage P env ?d"
    using a(1) by (simp add: choose_period_def)
  have "redefine_time_step (choose_period P env ?a)"
    unfolding c s by simp
  with assms(1) have "time_step (commit P env n hp) = 1" by (rule commit_redefined)
  moreover have "transient_transport (commit P env n hp)"
     "\<not> transient_saturation (commit P env n hp)"
    unfolding commit_sel c s by simp_all
  ultimately show ?thesis using e by simp
qed

theorem saturation_to_transport_at_once_witness:
  "\<not> test_transport (example_state False True False False) \<and>
   coupled_transport (example_state False True False False) \<and>
   \<not> richards_fixed_at_top (example_parameters ''dry'' False) \<and>
   transient_saturation (example_state False True False False) \<and>
   transient_transport (commit (example_parameters ''dry'' False) example_env 2
                          (example_state False True False False)) \<and>
   \<not> transient_saturation (commit (example_parameters ''dry'' False) example_env 2
                            (example_state False True False False)) \<and>
   time_step (commit (example_parameters ''dry'' False) example_env 2
                (example_state False True False False)) = 1 \<and>
   transient_drying (example_state True False False False) \<and>
   \<bar>1 - pressure_at_top example_env
          / (richards_bottom_fixed_value (example_parameters ''default'' False)
             - domain_size (example_parameters ''default'' False))\<bar> < 31 / 10 ^ 5 \<and>
   transient_transport (commit (example_parameters ''default'' False) example_env 2
                          (example_state True False False False))"
proof -
  let ?S = "example_state False True False False"
  let ?D = "example_state True False False False"
  let ?P = "example_parameters ''dry'' False"
  let ?Q = "example_parameters ''default'' False"
  have h: "\<not> test_transport ?S" "coupled_transport ?S" "\<not> richards_fixed_at_top ?P"
          "transient_saturation ?S"
    by (simp_all add: example_state_def example_parameters_def)
  have g: "\<not> test_transport ?D" "coupled_transport ?D" "\<not> richards_fixed_at_top ?Q"
          "transient_drying ?D"
    by (simp_all add: example_state_def example_parameters_def)
  have q: "\<bar>1 - pressure_at_top example_env
               / (richards_bottom_fixed_value ?Q - domain_size ?Q)\<bar> < 31 / 10 ^ 5"
    by (simp add: example_env_def example_parameters_def)
  from h(4) have hs: "transient_saturation ?S \<or>
           (transient_drying ?S \<and>
            \<bar>1 - pressure_at_top example_env
                   / (richards_bottom_fixed_value ?P - domain_size ?P)\<bar> < 31 / 10 ^ 5)"
    by (rule disjI1)
  from g(4) q have gs: "transient_saturation ?D \<or>
           (transient_drying ?D \<and>
            \<bar>1 - pressure_at_top example_env
                   / (richards_bottom_fixed_value ?Q - domain_size ?Q)\<bar> < 31 / 10 ^ 5)"
    by blast
  note S = saturation_to_transport_at_once [OF h(1,2,3) hs, of 2]
  note D = saturation_to_transport_at_once [OF g(1,2,3) gs, of 2]
  from h g(4) q S D show ?thesis by blast
qed

text \<open>
  C10 as stated fails in the transport test mode: from the state the constructor builds
  for the initial state \<^verbatim>\<open>dry\<close>, with coupled transport enabled and no fixed
  pressure at the top, the commit of the time step leaves the saturation flag set and
  the transport flag clear.
\<close>

theorem saturation_to_transport_test_mode_counterexample:
  "Heat_Pipe_ctor (example_parameters ''dry'' True)
     = Inr (example_state False True False True) \<and>
   transient_saturation (example_state False True False True) \<and>
   coupled_transport (example_state False True False True) \<and>
   \<not> richards_fixed_at_top (example_parameters ''dry'' True) \<and>
   transient_saturation (commit (example_parameters ''dry'' True) example_env 2
                          (example_state False True False True)) \<and>
   \<not> transient_transport (commit (example_parameters ''dry'' True) example_env 2
                           (example_state False True False True))"
  by (simp add: Heat_Pipe_ctor_def example_parameters_def example_state_def example_env_def
        commit_def advance_time_def choose_period_def output_stage_def update_timestep_def
        Let_def)

section \<open>Properties of the transport guard\<close>

lemma ieee_sqrt_not_negative: "\<not> ieee_less (ieee_sqrt x) (Finite 0)"
  by (cases x) auto

lemma ieee_sqrt_not_MInf: "ieee_sqrt x \<noteq> MInf"
  by (cases x) auto

lemma tensor_norm_not_negative: "\<not> ieee_less (tensor_norm v) (Finite 0)"
  by (simp add: tensor_norm_def ieee_sqrt_not_negative)

lemma tensor_norm_not_MInf: "tensor_norm v \<noteq> MInf"
  by (simp add: tensor_norm_def ieee_sqrt_not_MInf)

lemma sum_of_zeros:
  "foldl ieee_add (Finite 0) (map (\<lambda>x. Finite 0) v) = Finite 0"
  by (induction v) simp_all

lemma tensor_norm_zero_tensor: "tensor_norm (zero_tensor v) = Finite 0"
  by (simp add: tensor_norm_def zero_tensor_def o_def sum_of_zeros)

text \<open>A norm is degenerate exactly when it is NaN or infinite.\<close>

lemma degenerate_norm:
  "degenerate (tensor_norm v) \<longleftrightarrow> is_nan (tensor_norm v) \<or> \<not> is_finite (tensor_norm v)"
  by (simp add: degenerate_def tensor_norm_not_negative)

lemma less_small_is_finite:
  "ieee_less (tensor_norm v) (Finite (1 / 10 ^ 6)) \<Longrightarrow> \<not> degenerate (tensor_norm v)"
  using tensor_norm_not_MInf [of v] tensor_norm_not_negative [of v]
  by (cases "tensor_norm v") (simp_all add: degenerate_def is_nan_def is_finite_def)

text \<open>
  What the adjustment leaves for the guard, in terms of the velocities it was given.
\<close>

lemma adjusted_velocities_degenerate:
  assumes "adjust_velocities c = (nv, ov)"
  shows "degenerate (tensor_norm nv) \<or> degenerate (tensor_norm ov) \<longleftrightarrow>
         degenerate (tensor_norm (new_velocity c)) \<or>
         (\<not> ieee_less (tensor_norm (new_velocity c)) (Finite (1 / 10 ^ 6)) \<and>
          degenerate (tensor_norm (old_velocity c)))"
proof (cases "ieee_less (tensor_norm (new_velocity c)) (Finite (1 / 10 ^ 6))")
  case True
  then have "nv = zero_tensor (new_velocity c)" "ov = zero_tensor (old_velocity c)"
    using assms by (simp_all add: adjust_velocities_def tensor_norm_zero_tensor)
  then have "\<not> degenerate (tensor_norm nv)" "\<not> degenerate (tensor_norm ov)"
    by (simp_all add: tensor_norm_zero_tensor degenerate_def is_nan_def is_finite_def)
  with True less_small_is_finite [OF True] show ?thesis by simp
next
  case False
  show ?thesis
  proof (cases "ieee_le (Finite (1 / 10 ^ 6)) (tensor_norm (new_velocity c))
                \<and> ieee_less (tensor_norm (old_velocity c)) (Finite (1 / 10 ^ 6))")
    case True
    then have nv: "nv = new_velocity c" and ov: "ov = new_velocity c"
      using assms False by (auto simp: adjust_velocities_def)
    have "\<not> degenerate (tensor_norm (old_velocity c))"
      using True less_small_is_finite by blast
    then show ?thesis
      unfolding nv ov using False by blast
  next
    case other: False
    then have nv: "nv = new_velocity c" and ov: "ov = old_velocity c"
      using assms False by (auto simp: adjust_velocities_def)
    show ?thesis
      unfolding nv ov using False by blast
  qed
qed

lemma cell_guard_Inl: "cell_guard P c = Inl e \<Longrightarrow> e = Thrown (- 1)"
  by (auto simp: cell_guard_def split: prod.splits if_splits)

lemma cell_guard_throws_iff:
  assumes "adjust_velocities c = (nv, ov)"
      and "stabilization P nv ov (diameter c) = (Peclet, beta, tau)"
  shows "cell_guard P c = Inl (Thrown (- 1)) \<longleftrightarrow>
         degenerate (tensor_norm nv) \<or> degenerate (tensor_norm ov) \<or>
         degenerate Peclet \<or> degenerate beta \<or> degenerate tau"
  unfolding degenerate_norm
  by (auto simp: cell_guard_def assms degenerate_def)

lemma cell_guard_degenerate:
  "cell_degenerate P c \<longleftrightarrow> cell_guard P c = Inl (Thrown (- 1))"
proof -
  obtain nv ov where a: "adjust_velocities c = (nv, ov)"
    by (cases "adjust_velocities c")
  obtain Peclet beta tau where s: "stabilization P nv ov (diameter c) = (Peclet, beta, tau)"
    by (cases "stabilization P nv ov (diameter c)") auto
  have "cell_degenerate P c \<longleftrightarrow>
          (degenerate (tensor_norm (new_velocity c)) \<or>
           (\<not> ieee_less (tensor_norm (new_velocity c)) (Finite (1 / 10 ^ 6)) \<and>
            degenerate (tensor_norm (old_velocity c)))) \<or>
          degenerate Peclet \<or> degenerate beta \<or> degenerate tau"
    by (simp add: cell_degenerate_def a s disj_assoc)
  also have "\<dots> \<longleftrightarrow>
          (degenerate (tensor_norm nv) \<or> degenerate (tensor_norm ov)) \<or>
          degenerate Peclet \<or> degenerate beta \<or> degenerate tau"
    by (simp only: adjusted_velocities_degenerate [OF a])
  also have "\<dots> \<longleftrightarrow> cell_guard P c = Inl (Thrown (- 1))"
    by (simp only: cell_guard_throws_iff [OF a s] disj_assoc)
  finally show ?thesis .
qed

lemma finite_nonnegI:
  "\<not> ieee_less x (Finite 0) \<Longrightarrow> \<not> is_nan x \<Longrightarrow> is_finite x \<Longrightarrow> finite_nonneg x"
  by (cases x) (auto simp: finite_nonneg_def is_nan_def is_finite_def)

lemma cell_guard_Inr:
  "cell_guard P c = Inr r \<Longrightarrow>
     r = (case adjust_velocities c of (nv, ov) \<Rightarrow> stabilization P nv ov (diameter c)) \<and>
     (case r of (Peclet, beta, tau) \<Rightarrow>
        finite_nonneg Peclet \<and> finite_nonneg beta \<and> finite_nonneg tau)"
  by (auto simp: cell_guard_def split: prod.splits if_splits intro: finite_nonnegI)

lemma assemble_Inl:
  "assemble_system_transport P cells = Inl e \<Longrightarrow> e = Thrown (- 1)"
  by (induction cells arbitrary: e) (auto split: sum.splits dest: cell_guard_Inl)

lemma assemble_fails_iff:
  "assemble_system_transport P cells = Inl (Thrown (- 1)) \<longleftrightarrow>
     (\<exists>c \<in> set cells. cell_degenerate P c)"
proof (induction cells)
  case Nil
  then show ?case by simp
next
  case (Cons c cs)
  show ?case
  proof (cases "cell_guard P c")
    case (Inl e)
    then have "cell_degenerate P c"
      using cell_guard_Inl [OF Inl] by (simp add: cell_guard_degenerate)
    with Inl cell_guard_Inl [OF Inl] show ?thesis by simp
  next
    case (Inr r)
    then have n: "\<not> cell_degenerate P c" by (simp add: cell_guard_degenerate)
    show ?thesis
    proof (cases "assemble_system_transport P cs")
      case (Inl e)
      with Inr n Cons.IH assemble_Inl [OF Inl] show ?thesis by simp
    next
      case r2: (Inr rs)
      with Inr n Cons.IH show ?thesis by simp
    qed
  qed
qed

lemma assemble_Inr:
  "assemble_system_transport P cells = Inr rs \<Longrightarrow>
     rs = map (\<lambda>c. case adjust_velocities c of (nv, ov) \<Rightarrow> stabilization P nv ov (diameter c)) cells
     \<and> (\<forall>r \<in> set rs. case r of (Peclet, beta, tau) \<Rightarrow>
          finite_nonneg Peclet \<and> finite_nonneg beta \<and> finite_nonneg tau)"
proof (induction cells arbitrary: rs)
  case Nil
  then show ?case by simp
next
  case (Cons c cs)
  from Cons.prems obtain r rs' where
    g: "cell_guard P c = Inr r" and a: "assemble_system_transport P cs = Inr rs'"
    and rs: "rs = r # rs'"
    by (auto split: sum.splits)
  from cell_guard_Inr [OF g] Cons.IH [OF a] rs show ?case by auto
qed

text \<open>The hyperbolic tangent stays below the identity on the positive half-line.\<close>

lemma tanh_le_self:
  assumes "0 \<le> (x::real)"
  shows "tanh x \<le> x"
proof -
  have "(\<lambda>t. t - tanh t) 0 \<le> (\<lambda>t. t - tanh t) x"
  proof (rule DERIV_nonneg_imp_nondecreasing [OF assms])
    fix t :: real
    assume "0 \<le> t" "t \<le> x"
    have "((\<lambda>t. t - tanh t) has_real_derivative 1 - (1 - tanh t ^ 2)) (at t)"
      by (auto intro!: derivative_eq_intros)
    then show "\<exists>y. ((\<lambda>t. t - tanh t) has_real_derivative y) (at t) \<and> 0 \<le> y"
      by (intro exI [of _ "1 - (1 - tanh t ^ 2)"]) simp
  qed
  then show ?thesis by simp
qed

lemma beta_at_quarter: "0 \<le> 1 / tanh (1 / 4 :: real) - 4"
proof -
  have "tanh (1 / 4 :: real) \<le> 1 / 4" by (rule tanh_le_self) simp
  moreover have "0 < tanh (1 / 4 :: real)" by simp
  ultimately have "4 \<le> 1 / tanh (1 / 4 :: real)"
    by (simp add: field_simps)
  then show ?thesis by simp
qed

lemma tensor_norm_examples:
  "tensor_norm [Finite 0, Finite 0] = Finite 0"
  "tensor_norm [Finite 1, Finite 0] = Finite 1"
  "tensor_norm [NaN, Finite 0] = NaN"
  "tensor_norm [PInf, Finite 0] = PInf"
  by (simp_all add: tensor_norm_def)

lemma moving_cell_adjusted:
  "adjust_velocities (moving_cell d) = ([Finite 1, Finite 0], [Finite 1, Finite 0])"
  by (simp add: adjust_velocities_def moving_cell_def tensor_norm_examples)

lemma moving_cell_stabilization:
  "stabilization example_transport_parameters [Finite 1, Finite 0] [Finite 1, Finite 0]
     (Finite d)
   = (Finite (d / 4),
      ieee_sub (ieee_div (Finite 1) (Finite (tanh (d / 4)))) (ieee_div (Finite 1) (Finite (d / 4))),
      ieee_div
        (ieee_mul
          (ieee_mul (Finite (1 / 2))
            (ieee_sub (ieee_div (Finite 1) (Finite (tanh (d / 4))))
                      (ieee_div (Finite 1) (Finite (d / 4)))))
          (Finite d))
        (Finite 1))"
  by (simp add: stabilization_def example_transport_parameters_def tensor_norm_examples Let_def)

lemma moving_cell_diameter: "diameter (moving_cell d) = d"
  by (simp add: moving_cell_def)

lemma moving_cell_passes:
  "cell_guard example_transport_parameters (moving_cell (Finite 1))
     = Inr (Finite (1 / 4), Finite (1 / tanh (1 / 4) - 4), Finite ((1 / tanh (1 / 4) - 4) / 2))"
  using beta_at_quarter
  by (simp add: cell_guard_def moving_cell_adjusted moving_cell_diameter
        moving_cell_stabilization tensor_norm_examples ieee_sub_def is_nan_def is_finite_def)

lemma resting_cell_passes:
  "cell_guard example_transport_parameters (resting_cell x)
     = Inr (Finite 0, Finite 0, Finite 0)"
  by (simp add: cell_guard_def adjust_velocities_def stabilization_def resting_cell_def
        zero_tensor_def tensor_norm_examples is_nan_def is_finite_def Let_def)

text \<open>
  C5, as amended. The guard runs after the small-velocity adjustment, which sets both
  velocities of an element to zero when the norm of the new one is below \<open>1e-6\<close>; the
  old velocity of such an element is never tested. The transport assembly throws
  \<open>-1\<close> exactly when, for some mesh element, the norm of the cell-averaged new
  velocity is NaN, infinite or negative, or the norm of the cell-averaged old velocity
  is while the norm of the new one is not below \<open>1e-6\<close>, or the Peclet number,
  \<open>beta\<close> or \<open>tau\<close> is. In that case no transport system is produced. Conversely,
  when the assembly returns, it has gone through every element, and the Peclet number,
  \<open>beta\<close> and \<open>tau\<close> of every element are finite and not negative.
\<close>

theorem transport_assembly_guard:
  "(assemble_system_transport P cells = Inl (Thrown (- 1)) \<longleftrightarrow>
      (\<exists>c \<in> set cells. cell_degenerate P c)) \<and>
   (\<forall>e. assemble_system_transport P cells = Inl e \<longrightarrow> e = Thrown (- 1)) \<and>
   (\<forall>rs. assemble_system_transport P cells = Inr rs \<longrightarrow>
      length rs = length cells \<and>
      (\<forall>r \<in> set rs. case r of (Peclet, beta, tau) \<Rightarrow>
          finite_nonneg Peclet \<and> finite_nonneg beta \<and> finite_nonneg tau))"
  using assemble_fails_iff [of P cells] assemble_Inr [of P cells] assemble_Inl [of P cells]
  by auto

theorem transport_assembly_guard_witness:
  "cell_degenerate example_transport_parameters (example_cell NaN) \<and>
   cell_degenerate example_transport_parameters (moving_cell (Finite (- 1))) \<and>
   assemble_system_transport example_transport_parameters
     [moving_cell (Finite 1), example_cell NaN] = Inl (Thrown (- 1)) \<and>
   assemble_system_transport example_transport_parameters
     [moving_cell (Finite (- 1))] = Inl (Thrown (- 1)) \<and>
   assemble_system_transport example_transport_parameters
     [resting_cell (Finite 0), moving_cell (Finite 1)]
     = Inr [(Finite 0, Finite 0, Finite 0),
            (Finite (1 / 4), Finite (1 / tanh (1 / 4) - 4),
             Finite ((1 / tanh (1 / 4) - 4) / 2))] \<and>
   finite_nonneg (Finite (1 / 4)) \<and>
   finite_nonneg (Finite (1 / tanh (1 / 4) - 4)) \<and>
   finite_nonneg (Finite ((1 / tanh (1 / 4) - 4) / 2))"
proof -
  let ?P = example_transport_parameters
  let ?r = "(Finite (1 / 4), Finite (1 / tanh (1 / 4) - 4),
             Finite ((1 / tanh (1 / 4) - 4) / 2))"
  have d1: "cell_degenerate ?P (example_cell NaN)"
    by (simp add: cell_degenerate_def example_cell_def tensor_norm_examples
          degenerate_def is_nan_def split: prod.splits)
  have d2: "cell_degenerate ?P (moving_cell (Finite (- 1)))"
    by (simp add: cell_degenerate_def moving_cell_adjusted moving_cell_diameter
          moving_cell_stabilization degenerate_def)
  have ok: "assemble_system_transport ?P [resting_cell (Finite 0), moving_cell (Finite 1)]
              = Inr [(Finite 0, Finite 0, Finite 0), ?r]"
    by (simp add: resting_cell_passes moving_cell_passes)
  have "\<exists>c \<in> set [moving_cell (Finite 1), example_cell NaN]. cell_degenerate ?P c"
    using d1 by simp
  with transport_assembly_guard [of ?P "[moving_cell (Finite 1), example_cell NaN]"]
  have bad1: "assemble_system_transport ?P [moving_cell (Finite 1), example_cell NaN]
               = Inl (Thrown (- 1))"
    by blast
  have "\<exists>c \<in> set [moving_cell (Finite (- 1))]. cell_degenerate ?P c"
    using d2 by simp
  with transport_assembly_guard [of ?P "[moving_cell (Finite (- 1))]"]
  have bad2: "assemble_system_transport ?P [moving_cell (Finite (- 1))] = Inl (Thrown (- 1))"
    by blast
  from transport_assembly_guard [of ?P "[resting_cell (Finite 0), moving_cell (Finite 1)]"] ok
  have "\<forall>r \<in> set [(Finite 0, Finite 0, Finite 0), ?r]. case r of (Peclet, beta, tau) \<Rightarrow>
          finite_nonneg Peclet \<and> finite_nonneg beta \<and> finite_nonneg tau"
    by blast
  then have "finite_nonneg (Finite (1 / 4)) \<and> finite_nonneg (Finite (1 / tanh (1 / 4) - 4)) \<and>
             finite_nonneg (Finite ((1 / tanh (1 / 4) - 4) / 2))"
    by simp
  with d1 d2 bad1 bad2 ok show ?thesis by blast
qed

text \<open>
  C5 as stated fails for the old velocity of an element at rest: with the new velocity
  \<open>(0, 0)\<close>, an old velocity whose norm is NaN, or infinite, is set to zero before the
  guard, and the assembly returns with the parameters \<open>(0, 0, 0)\<close>.
\<close>

theorem old_velocity_unchecked_at_rest_counterexample:
  "is_nan (tensor_norm (old_velocity (resting_cell NaN))) \<and>
   assemble_system_transport example_transport_parameters [resting_cell NaN]
     = Inr [(Finite 0, Finite 0, Finite 0)] \<and>
   \<not> is_finite (tensor_norm (old_velocity (resting_cell PInf))) \<and>
   assemble_system_transport example_transport_parameters [resting_cell PInf]
     = Inr [(Finite 0, Finite 0, Finite 0)]"
  by (simp add: resting_cell_passes)
     (simp add: resting_cell_def tensor_norm_examples is_nan_def is_finite_def)

end
